theory Spec2Isabelle
  imports Main "HOL-Library.AList"
begin

section \<open>Python values, errors and effects\<close>

text \<open>
  The module \<^verbatim>\<open>bedrock/contentful/api.py\<close> reads entries from a Contentful space and
  flattens them into dictionaries for the templates. The values it handles are Python
  objects: \<^verbatim>\<open>None\<close>, booleans, integers, strings, lists, dictionaries with string keys
  (kept as association lists, in insertion order), and the two resource classes of the
  Contentful client, entries and assets. An entry carries its id, the id of its content
  type and its field dictionary; an asset carries its id and its field dictionary.
\<close>

datatype pyval =
    PNone
  | PBool bool
  | PInt int
  | PStr string
  | PList "pyval list"
  | PDict "(string \<times> pyval) list"
  | PEntry string string "(string \<times> pyval) list"
  | PAsset string "(string \<times> pyval) list"

type_synonym fields = "(string \<times> pyval) list"

text \<open>The exceptions that the module and its collaborators can raise.\<close>

datatype error =
    AttributeError
  | KeyError
  | TypeError
  | OverflowError
  | ValueError
  | IndexError
  | EntryNotFoundError
  | RendererError

text \<open>
  An entry as the client returns it: \<^verbatim>\<open>entry.id\<close>, \<^verbatim>\<open>entry.sys['content_type'].id\<close>
  and \<^verbatim>\<open>entry.fields()\<close>.
\<close>

record entry =
  entry_id :: string
  content_type_id :: string
  entry_fields :: fields

text \<open>
  The calls to the two external collaborators are the effects of the module. Every
  computation returns its result (or the exception it raised) together with the calls it
  made, in order: \<open>Fetch i\<close> is \<^verbatim>\<open>client.entry(i, ...)\<close>, \<open>FetchAll t\<close> is
  \<^verbatim>\<open>client.entries({'content_type': t})\<close> and \<open>Render v\<close> is \<^verbatim>\<open>renderer.render(v)\<close>.
\<close>

datatype event = Fetch string | FetchAll string | Render pyval

type_synonym 'a io = "(error + 'a) \<times> event list"

definition io_return :: "'a \<Rightarrow> 'a io" where
  "io_return x = (Inr x, [])"

definition io_raise :: "error \<Rightarrow> 'a io" where
  "io_raise e = (Inl e, [])"

definition io_lift :: "error + 'a \<Rightarrow> 'a io" where
  "io_lift r = (r, [])"

definition io_bind :: "'a io \<Rightarrow> ('a \<Rightarrow> 'b io) \<Rightarrow> 'b io" where
  "io_bind m f =
     (case m of
        (Inl e, t) \<Rightarrow> (Inl e, t)
      | (Inr x, t) \<Rightarrow> (case f x of (r, t') \<Rightarrow> (r, t @ t')))"

text \<open>
  The environment of a \<^verbatim>\<open>ContentfulPage\<close>: the client built by \<^verbatim>\<open>get_client\<close>
  (\<open>None\<close> when no space id is configured, otherwise the entries of the space), the
  rich-text renderer and the \<^verbatim>\<open>url(**kwargs)\<close> method of the client's assets. The last
  two belong to third-party libraries and are parameters of the model.
\<close>

record env =
  client :: "entry list option"
  renderer_render :: "pyval \<Rightarrow> error + string"
  asset_url :: "fields \<Rightarrow> (string \<times> pyval) list \<Rightarrow> error + string"

section \<open>Python numbers\<close>

text \<open>
  \<^verbatim>\<open>_get_height\<close> multiplies an \<^verbatim>\<open>int\<close> by an entry of \<^verbatim>\<open>ASPECT_MULTIPLIER\<close>, which is
  the \<^verbatim>\<open>int\<close> 1 or a \<^verbatim>\<open>float\<close>, and rounds. A finite float is an IEEE-754 binary64 value
  \<open>m * 2 ^ e\<close>, kept as the pair of integers \<open>m\<close> and \<open>e\<close>. Every arithmetic result is
  rounded to 53 significant bits, ties to even, and a magnitude of \<open>2 ^ 1024\<close> or more
  becomes an infinity. The products computed here are zero or at least one half in
  magnitude, so subnormal numbers are left out; so are the signs of zero and infinity,
  which \<^verbatim>\<open>round\<close> does not distinguish.
\<close>

datatype pyfloat = Finite int int | Inf | NaN

datatype pynum = PyInt int | PyFloat pyfloat

text \<open>The number of bits of a non-negative \<^verbatim>\<open>int\<close>, as \<^verbatim>\<open>int.bit_length\<close> gives it.\<close>

function bit_length :: "int \<Rightarrow> nat" where
  "bit_length n = (if n \<le> 0 then 0 else Suc (bit_length (n div 2)))"
  by pat_completeness auto
termination
  by (relation "measure nat") auto

declare bit_length.simps [simp del]

text \<open>\<open>n / 2 ^ k\<close> rounded to the nearest integer, ties to the even one.\<close>

definition round_half_even_shift :: "int \<Rightarrow> nat \<Rightarrow> int" where
  "round_half_even_shift n k =
     (let q = n div 2 ^ k; r = n mod 2 ^ k in
      if 2 * r < 2 ^ k then q
      else if 2 * r > 2 ^ k then q + 1
      else if even q then q else q + 1)"

text \<open>The float nearest to \<open>m * 2 ^ e\<close>.\<close>

definition float_round :: "int \<Rightarrow> int \<Rightarrow> pyfloat" where
  "float_round m e =
     (let b = bit_length \<bar>m\<bar>;
          k = b - 53;
          m' = (if b \<le> 53 then m else round_half_even_shift m k);
          e' = e + int k
      in if int (bit_length \<bar>m'\<bar>) + e' > 1024 then Inf else Finite m' e')"

text \<open>\<^verbatim>\<open>float(n)\<close> for an \<^verbatim>\<open>int\<close>: the nearest float, or \<^verbatim>\<open>OverflowError\<close>.\<close>

definition float_of_int :: "int \<Rightarrow> error + pyfloat" where
  "float_of_int n =
     (case float_round n 0 of Finite m e \<Rightarrow> Inr (Finite m e) | _ \<Rightarrow> Inl OverflowError)"

fun float_mul :: "pyfloat \<Rightarrow> pyfloat \<Rightarrow> pyfloat" where
  "float_mul (Finite m1 e1) (Finite m2 e2) = float_round (m1 * m2) (e1 + e2)"
| "float_mul NaN y = NaN"
| "float_mul x NaN = NaN"
| "float_mul Inf Inf = Inf"
| "float_mul Inf (Finite m e) = (if m = 0 then NaN else Inf)"
| "float_mul (Finite m e) Inf = (if m = 0 then NaN else Inf)"

text \<open>
  \<^verbatim>\<open>a * y\<close> for an \<^verbatim>\<open>int\<close> \<open>a\<close>: exact when \<open>y\<close> is an \<^verbatim>\<open>int\<close>; when \<open>y\<close> is a float,
  \<open>a\<close> is converted first and the exact product is rounded.
\<close>

fun py_mul :: "int \<Rightarrow> pynum \<Rightarrow> error + pynum" where
  "py_mul a (PyInt b) = Inr (PyInt (a * b))"
| "py_mul a (PyFloat y) =
     (case float_of_int a of Inl err \<Rightarrow> Inl err | Inr x \<Rightarrow> Inr (PyFloat (float_mul x y)))"

text \<open>
  \<^verbatim>\<open>round(x)\<close> with one argument: an \<^verbatim>\<open>int\<close> is returned as it is, a finite float is
  rounded to the nearest \<^verbatim>\<open>int\<close>, ties to even, an infinity raises \<^verbatim>\<open>OverflowError\<close>
  and a NaN raises \<^verbatim>\<open>ValueError\<close>.
\<close>

fun py_round :: "pynum \<Rightarrow> error + int" where
  "py_round (PyInt n) = Inr n"
| "py_round (PyFloat (Finite m e)) =
     Inr (if 0 \<le> e then m * 2 ^ nat e else round_half_even_shift m (nat (- e)))"
| "py_round (PyFloat Inf) = Inl OverflowError"
| "py_round (PyFloat NaN) = Inl ValueError"

section \<open>Dictionaries and objects\<close>

text \<open>
  \<^verbatim>\<open>d.get(k, default)\<close> on one of the module's tables, whose keys are strings. The key
  comes from a field of an entry and may be any value: a list or a dictionary cannot be
  hashed and raises \<^verbatim>\<open>TypeError\<close>, any other value that is not a key gives the default.
\<close>

fun hashable :: "pyval \<Rightarrow> bool" where
  "hashable (PList xs) = False"
| "hashable (PDict d) = False"
| "hashable v = True"

definition dict_get :: "(string \<times> 'v) list \<Rightarrow> pyval \<Rightarrow> 'v \<Rightarrow> error + 'v" where
  "dict_get d k dflt =
     (case k of
        PStr s \<Rightarrow> Inr (case map_of d s of Some v \<Rightarrow> v | None \<Rightarrow> dflt)
      | _ \<Rightarrow> if hashable k then Inr dflt else Inl TypeError)"

text \<open>\<^verbatim>\<open>fields.get(k)\<close>, \<^verbatim>\<open>fields.get(k, default)\<close> and \<^verbatim>\<open>fields[k]\<close> on a field dictionary.\<close>

definition fields_get :: "fields \<Rightarrow> string \<Rightarrow> pyval" where
  "fields_get f k = (case map_of f k of Some v \<Rightarrow> v | None \<Rightarrow> PNone)"

definition fields_get_default :: "fields \<Rightarrow> string \<Rightarrow> pyval \<Rightarrow> pyval" where
  "fields_get_default f k dflt = (case map_of f k of Some v \<Rightarrow> v | None \<Rightarrow> dflt)"

definition fields_item :: "fields \<Rightarrow> string \<Rightarrow> error + pyval" where
  "fields_item f k = (case map_of f k of Some v \<Rightarrow> Inr v | None \<Rightarrow> Inl KeyError)"

text \<open>\<^verbatim>\<open>v.get(k)\<close> on any value: only a dictionary has the method.\<close>

fun py_get :: "pyval \<Rightarrow> string \<Rightarrow> error + pyval" where
  "py_get (PDict d) k = Inr (fields_get d k)"
| "py_get v k = Inl AttributeError"

text \<open>\<^verbatim>\<open>v.id\<close>, \<^verbatim>\<open>v.fields()\<close> and \<^verbatim>\<open>v.sys.get('content_type').id\<close>.\<close>

fun py_id :: "pyval \<Rightarrow> error + string" where
  "py_id (PEntry i c f) = Inr i"
| "py_id (PAsset i f) = Inr i"
| "py_id v = Inl AttributeError"

fun py_fields :: "pyval \<Rightarrow> error + fields" where
  "py_fields (PEntry i c f) = Inr f"
| "py_fields (PAsset i f) = Inr f"
| "py_fields v = Inl AttributeError"

fun py_content_type_id :: "pyval \<Rightarrow> error + string" where
  "py_content_type_id (PEntry i c f) = Inr c"
| "py_content_type_id v = Inl AttributeError"

text \<open>\<^verbatim>\<open>'https:' + v\<close>: only a string can be appended to a string.\<close>

fun py_str_add :: "string \<Rightarrow> pyval \<Rightarrow> error + string" where
  "py_str_add s (PStr t) = Inr (s @ t)"
| "py_str_add s v = Inl TypeError"

text \<open>The truth value of \<^verbatim>\<open>if v:\<close>.\<close>

fun truthy :: "pyval \<Rightarrow> bool" where
  "truthy PNone = False"
| "truthy (PBool b) = b"
| "truthy (PInt n) = (n \<noteq> 0)"
| "truthy (PStr s) = (s \<noteq> [])"
| "truthy (PList xs) = (xs \<noteq> [])"
| "truthy (PDict d) = (d \<noteq> [])"
| "truthy (PEntry i c f) = True"
| "truthy (PAsset i f) = True"

text \<open>
  \<^verbatim>\<open>for item in v\<close>: the elements of a list, the characters of a string, the keys of a
  dictionary; any other value is not iterable.
\<close>

fun py_iter :: "pyval \<Rightarrow> error + pyval list" where
  "py_iter (PList xs) = Inr xs"
| "py_iter (PStr s) = Inr (map (\<lambda>c. PStr [c]) s)"
| "py_iter (PDict d) = Inr (map (\<lambda>kv. PStr (fst kv)) d)"
| "py_iter v = Inl TypeError"

text \<open>
  \<^verbatim>\<open>s[k]\<close> on a string \<open>s\<close>: an integer index selects a character, counting from the end
  when negative; an index that is not an integer raises \<^verbatim>\<open>TypeError\<close>.
\<close>

definition str_getitem :: "string \<Rightarrow> pyval \<Rightarrow> error + pyval" where
  "str_getitem s k =
     (case k of
        PInt i \<Rightarrow>
          (let n = int (length s); j = (if i < 0 then n + i else i)
           in if 0 \<le> j \<and> j < n then Inr (PStr [s ! nat j]) else Inl IndexError)
      | PBool b \<Rightarrow>
          (let j = (if b then 1 else 0)
           in if j < length s then Inr (PStr [s ! j]) else Inl IndexError)
      | _ \<Rightarrow> Inl TypeError)"

section \<open>Tables and style helpers\<close>

text \<open>
  The tables of the module and its helper functions. The helpers \<^verbatim>\<open>_get_height\<close>,
  \<^verbatim>\<open>_get_image_url\<close>, \<^verbatim>\<open>_get_product_class\<close>, \<^verbatim>\<open>_get_layout_class\<close>, \<^verbatim>\<open>_get_abbr_from_width\<close>,
  \<^verbatim>\<open>_get_aspect_ratio_class\<close>, \<^verbatim>\<open>_get_width_class\<close> and \<^verbatim>\<open>_get_theme_class\<close> keep their names
  without the leading underscore. Their argument is a field value of an entry, so it may
  be any Python value, \<^verbatim>\<open>None\<close> for an absent field.
\<close>

definition ASPECT_RATIOS :: "(string \<times> string) list" where
  "ASPECT_RATIOS = [(''1:1'', ''1-1''), (''3:2'', ''3-2''), (''16:9'', ''16-9'')]"

text \<open>
  The float literals of \<^verbatim>\<open>ASPECT_MULTIPLIER\<close>: \<^verbatim>\<open>0.6666\<close> is the float
  \<open>6004199023210345 * 2 ^ -53\<close>, the one nearest to 6666/10000, and \<^verbatim>\<open>0.5625\<close> is
  exactly \<open>9 * 2 ^ -4\<close>.
\<close>

definition ASPECT_MULTIPLIER :: "(string \<times> pynum) list" where
  "ASPECT_MULTIPLIER =
     [(''1:1'', PyInt 1),
      (''3:2'', PyFloat (Finite 6004199023210345 (- 53))),
      (''16:9'', PyFloat (Finite 9 (- 4)))]"

definition PRODUCT_THEMES :: "(string \<times> string) list" where
  "PRODUCT_THEMES =
     [(''Firefox'', ''firefox''),
      (''Firefox Beta'', ''beta''),
      (''Firefox Developer'', ''developer''),
      (''Firefox Nightly'', ''nightly'')]"

definition WIDTHS :: "(string \<times> string) list" where
  "WIDTHS =
     [(''Extra Small'', ''xs''),
      (''Small'', ''sm''),
      (''Medium'', ''md''),
      (''Large'', ''lg''),
      (''Extra Large'', ''xl'')]"

definition LAYOUT_CLASS :: "(string \<times> string) list" where
  "LAYOUT_CLASS =
     [(''layout2Cards'', ''mzp-l-card-half''),
      (''layout3Cards'', ''mzp-l-card-third''),
      (''layout4Cards'', ''mzp-l-card-quarter''),
      (''layout5Cards'', ''mzp-l-card-hero'')]"

definition get_height :: "int \<Rightarrow> pyval \<Rightarrow> error + int" where
  "get_height width aspect =
     (case dict_get ASPECT_MULTIPLIER aspect (PyInt 0) of
        Inl err \<Rightarrow> Inl err
      | Inr m \<Rightarrow>
          (case py_mul width m of
             Inl err \<Rightarrow> Inl err
           | Inr p \<Rightarrow> py_round p))"

definition get_product_class :: "pyval \<Rightarrow> error + string" where
  "get_product_class product =
     (case dict_get PRODUCT_THEMES product [] of
        Inl err \<Rightarrow> Inl err
      | Inr slug \<Rightarrow> Inr (''mzp-t-product-'' @ slug))"

definition get_layout_class :: "pyval \<Rightarrow> error + string" where
  "get_layout_class layout = dict_get LAYOUT_CLASS layout []"

definition get_abbr_from_width :: "pyval \<Rightarrow> error + string" where
  "get_abbr_from_width width = dict_get WIDTHS width []"

definition get_aspect_ratio_class :: "pyval \<Rightarrow> error + string" where
  "get_aspect_ratio_class aspect_ratio =
     (case dict_get ASPECT_RATIOS aspect_ratio [] of
        Inl err \<Rightarrow> Inl err
      | Inr slug \<Rightarrow> Inr (''mzp-has-aspect-'' @ slug))"

definition get_width_class :: "pyval \<Rightarrow> error + string" where
  "get_width_class width =
     (case get_abbr_from_width width of
        Inl err \<Rightarrow> Inl err
      | Inr width_abbr \<Rightarrow> Inr (''mzp-t-content-'' @ width_abbr))"

definition get_theme_class :: "pyval \<Rightarrow> string" where
  "get_theme_class theme = (if theme = PStr ''Dark'' then ''mzp-t-dark'' else [])"

section \<open>The client and the renderer\<close>

text \<open>
  \<^verbatim>\<open>self.client.entry(i, query)\<close>: without a client the attribute access on \<^verbatim>\<open>None\<close>
  fails before any call is made; otherwise the call is made and returns the entry with
  that id or raises. \<^verbatim>\<open>self.client.entries({'content_type': t})\<close> returns the entries
  of a content type.
\<close>

definition client_entry :: "env \<Rightarrow> string \<Rightarrow> entry io" where
  "client_entry env i =
     (case client env of
        None \<Rightarrow> io_raise AttributeError
      | Some es \<Rightarrow>
          (case find (\<lambda>e. entry_id e = i) es of
             None \<Rightarrow> (Inl EntryNotFoundError, [Fetch i])
           | Some e \<Rightarrow> (Inr e, [Fetch i])))"

definition client_entries :: "env \<Rightarrow> string \<Rightarrow> entry list io" where
  "client_entries env t =
     (case client env of
        None \<Rightarrow> io_raise AttributeError
      | Some es \<Rightarrow> (Inr (filter (\<lambda>e. content_type_id e = t) es), [FetchAll t]))"

definition render :: "env \<Rightarrow> pyval \<Rightarrow> string io" where
  "render env v = (renderer_render env v, [Render v])"

text \<open>A \<^verbatim>\<open>for\<close> loop that updates a local variable, and a list comprehension.\<close>

fun io_fold :: "('a \<Rightarrow> 's \<Rightarrow> 's io) \<Rightarrow> 'a list \<Rightarrow> 's \<Rightarrow> 's io" where
  "io_fold f [] s = io_return s"
| "io_fold f (x # xs) s = io_bind (f x s) (io_fold f xs)"

fun io_map :: "('a \<Rightarrow> 'b io) \<Rightarrow> 'a list \<Rightarrow> 'b list io" where
  "io_map f [] = io_return []"
| "io_map f (x # xs) =
     io_bind (f x) (\<lambda>y. io_bind (io_map f xs) (\<lambda>ys. io_return (y # ys)))"

section \<open>Image URLs\<close>

text \<open>
  \<^verbatim>\<open>'https:' + image.url(w=width, h=_get_height(width, aspect), fit='fill', f='faces')\<close>.
  The method is looked up first, and only an asset has it; then the height is computed
  and the method is called.
\<close>

definition get_image_url :: "env \<Rightarrow> pyval \<Rightarrow> int \<Rightarrow> pyval \<Rightarrow> error + string" where
  "get_image_url env img width aspect =
     (case img of
        PAsset i f \<Rightarrow>
          (case get_height width aspect of
             Inl err \<Rightarrow> Inl err
           | Inr h \<Rightarrow>
               (case asset_url env f
                       [(''w'', PInt width), (''h'', PInt h),
                        (''fit'', PStr ''fill''), (''f'', PStr ''faces'')] of
                  Inl err \<Rightarrow> Inl err
                | Inr u \<Rightarrow> Inr (''https:'' @ u)))
      | _ \<Rightarrow> Inl AttributeError)"

text \<open>\<^verbatim>\<open>v.fields().get('file').get('url')\<close>.\<close>

definition file_url :: "pyval \<Rightarrow> error + pyval" where
  "file_url v =
     (case py_fields v of
        Inl err \<Rightarrow> Inl err
      | Inr f \<Rightarrow> py_get (fields_get f ''file'') ''url'')"

section \<open>ContentfulPage\<close>

definition get_entry_by_id :: "env \<Rightarrow> string \<Rightarrow> entry io" where
  "get_entry_by_id env entry_id' = client_entry env entry_id'"

definition get_entry_data :: "env \<Rightarrow> string \<Rightarrow> entry io" where
  "get_entry_data env page_id = client_entry env page_id"

definition get_page_type :: "env \<Rightarrow> string \<Rightarrow> string io" where
  "get_page_type env page_id =
     io_bind (client_entry env page_id) (\<lambda>page_obj. io_return (content_type_id page_obj))"

definition get_info_data :: "fields \<Rightarrow> error + fields" where
  "get_info_data flds =
     (case fields_item flds ''preview_title'' of
        Inl err \<Rightarrow> Inl err
      | Inr title \<Rightarrow>
     (case fields_item flds ''preview_blurb'' of
        Inl err \<Rightarrow> Inl err
      | Inr blurb \<Rightarrow>
     (let info_data =
            [(''title'', title),
             (''blurb'', blurb),
             (''slug'', fields_get_default flds ''slug'' (PStr ''home''))]
      in if map_of flds ''preview_image'' \<noteq> None then
           (case fields_item flds ''preview_image'' of
              Inl err \<Rightarrow> Inl err
            | Inr img \<Rightarrow>
           (case file_url img of
              Inl err \<Rightarrow> Inl err
            | Inr preview_image_url \<Rightarrow>
           (case py_str_add ''https:'' preview_image_url of
              Inl err \<Rightarrow> Inl err
            | Inr u \<Rightarrow> Inr (AList.update ''image'' (PStr u) info_data))))
         else Inr info_data)))"

definition get_page_data :: "env \<Rightarrow> string \<Rightarrow> fields io" where
  "get_page_data env page_id =
     io_bind (client_entry env page_id) (\<lambda>page.
     let flds = entry_fields page in
     io_bind (io_lift (get_info_data flds)) (\<lambda>info.
     io_return
       [(''page_type'', PStr (content_type_id page)),
        (''info'', PDict info),
        (''fields'', PDict flds)]))"

definition get_all_page_data :: "env \<Rightarrow> fields list io" where
  "get_all_page_data env =
     io_bind (client_entries env ''pageVersatile'') (\<lambda>pages.
     io_map (\<lambda>p. get_page_data env (entry_id p)) pages)"

definition get_text_data :: "env \<Rightarrow> pyval \<Rightarrow> fields io" where
  "get_text_data env v =
     io_bind (render env v) (\<lambda>body.
     io_bind (io_lift (get_width_class (PStr ''Medium''))) (\<lambda>width_class.
     io_return
       [(''component'', PStr ''text''),
        (''body'', PStr body),
        (''width_class'', PStr width_class)]))"

definition get_cta_data :: "env \<Rightarrow> pyval \<Rightarrow> fields io" where
  "get_cta_data env cta =
     (if truthy cta then
        io_bind (io_lift (py_id cta)) (\<lambda>cta_id.
        io_bind (get_entry_by_id env cta_id) (\<lambda>cta_obj.
        let cta_fields = entry_fields cta_obj in
        io_return
          [(''component'', PStr (content_type_id cta_obj)),
           (''label'', fields_get cta_fields ''label''),
           (''action'', fields_get cta_fields ''action''),
           (''size'', PStr ''mzp-t-xl''),
           (''theme'', PStr ''mzp-t-primary''),
           (''include_cta'', PBool True)]))
      else io_return [(''include_cta'', PBool False)])"

definition get_hero_data :: "env \<Rightarrow> string \<Rightarrow> fields io" where
  "get_hero_data env hero_id =
     io_bind (get_entry_by_id env hero_id) (\<lambda>hero_obj.
     let flds = entry_fields hero_obj in
     io_bind (io_lift (fields_item flds ''image'')) (\<lambda>img.
     io_bind (io_lift (file_url img)) (\<lambda>hero_image_url.
     let hero_reverse = fields_get flds ''image_position'' in
     io_bind (render env (fields_get flds ''body'')) (\<lambda>hero_body.
     io_bind (io_lift (get_product_class (fields_get flds ''product_icon''))) (\<lambda>product_class.
     io_bind (io_lift (py_str_add ''https:'' hero_image_url)) (\<lambda>image_url.
     io_bind (get_cta_data env (fields_get flds ''cta'')) (\<lambda>cta.
     io_return
       [(''component'', PStr ''hero''),
        (''theme_class'', PStr (get_theme_class (fields_get flds ''theme''))),
        (''product_class'', PStr product_class),
        (''title'', fields_get flds ''heading''),
        (''tagline'', fields_get flds ''tagline''),
        (''body'', PStr hero_body),
        (''image'', PStr image_url),
        (''image_position'', fields_get flds ''image_position''),
        (''image_class'', PStr (if hero_reverse = PStr ''Left'' then ''mzp-l-reverse'' else [])),
        (''cta'', PDict cta)])))))))"

definition get_section_heading_data :: "env \<Rightarrow> string \<Rightarrow> fields io" where
  "get_section_heading_data env heading_id =
     io_bind (get_entry_by_id env heading_id) (\<lambda>heading_obj.
     let flds = entry_fields heading_obj in
     io_return
       [(''component'', PStr ''sectionHeading''),
        (''heading'', fields_get flds ''heading'')])"

text \<open>
  \<^verbatim>\<open>self.renderer.render(f.get('body')) if f.get('body') else ''\<close>, the guard of the
  callout and the card.
\<close>

definition render_body :: "env \<Rightarrow> fields \<Rightarrow> string io" where
  "render_body env f =
     (if truthy (fields_get f ''body'') then render env (fields_get f ''body'')
      else io_return [])"

definition get_callout_data :: "env \<Rightarrow> string \<Rightarrow> fields io" where
  "get_callout_data env callout_id =
     io_bind (get_entry_by_id env callout_id) (\<lambda>config_obj.
     let config_fields = entry_fields config_obj in
     io_bind (io_lift (py_id (fields_get config_fields ''component_callout''))) (\<lambda>content_id.
     io_bind (get_entry_by_id env content_id) (\<lambda>content_obj.
     let content_fields = entry_fields content_obj in
     io_bind (render_body env content_fields) (\<lambda>content_body.
     io_bind (io_lift (get_product_class (fields_get content_fields ''product_icon''))) (\<lambda>product_class.
     io_bind (get_cta_data env (fields_get content_fields ''cta'')) (\<lambda>cta.
     io_return
       [(''component'', PStr ''callout''),
        (''theme_class'', PStr (get_theme_class (fields_get config_fields ''theme''))),
        (''product_class'', PStr product_class),
        (''title'', fields_get content_fields ''heading''),
        (''body'', PStr content_body),
        (''cta'', PDict cta)]))))))"

definition get_card_data :: "env \<Rightarrow> string \<Rightarrow> pyval \<Rightarrow> fields io" where
  "get_card_data env card_id aspect_ratio =
     io_bind (get_entry_by_id env card_id) (\<lambda>card_obj.
     let card_fields = entry_fields card_obj in
     io_bind (render_body env card_fields) (\<lambda>card_body.
     let card_image = fields_get card_fields ''image'' in
     io_bind (io_lift (get_image_url env card_image 800 aspect_ratio)) (\<lambda>highres_image_url.
     io_bind (io_lift (get_image_url env card_image 800 aspect_ratio)) (\<lambda>image_url.
     io_bind (io_lift (get_aspect_ratio_class aspect_ratio)) (\<lambda>aspect_class.
     io_return
       [(''component'', PStr ''card''),
        (''heading'', fields_get card_fields ''heading''),
        (''tag'', fields_get card_fields ''tag''),
        (''link'', fields_get card_fields ''link''),
        (''body'', PStr card_body),
        (''aspect_ratio'', PStr aspect_class),
        (''highres_image_url'', PStr highres_image_url),
        (''image_url'', PStr image_url)])))))"

definition get_large_card_data :: "env \<Rightarrow> string \<Rightarrow> string \<Rightarrow> fields io" where
  "get_large_card_data env card_layout_id card_id =
     io_bind (get_entry_by_id env card_layout_id) (\<lambda>large_card_layout.
     let large_card_fields = entry_fields large_card_layout;
         large_card_image = fields_get large_card_fields ''image'' in
     io_bind (io_lift (get_image_url env large_card_image 1860 (PStr ''16:9''))) (\<lambda>highres_image_url.
     io_bind (io_lift (get_image_url env large_card_image 1860 (PStr ''16:9''))) (\<lambda>image_url.
     io_bind (get_card_data env card_id (PStr ''16:9'')) (\<lambda>card_data.
     io_return
       (AList.update ''image_url'' (PStr image_url)
         (AList.update ''highres_image_url'' (PStr highres_image_url)
           (AList.update ''component'' (PStr ''large_card'') card_data)))))))"

text \<open>\<^verbatim>\<open>card_layout_data.get('cards').append(x)\<close>.\<close>

definition cards_append :: "fields \<Rightarrow> fields \<Rightarrow> error + fields" where
  "cards_append card_layout_data x =
     (case fields_get card_layout_data ''cards'' of
        PList cards \<Rightarrow> Inr (AList.update ''cards'' (PList (cards @ [PDict x])) card_layout_data)
      | _ \<Rightarrow> Inl AttributeError)"

text \<open>The body of \<^verbatim>\<open>for card in cards\<close> in \<^verbatim>\<open>get_card_layout_data\<close>.\<close>

definition card_step :: "env \<Rightarrow> pyval \<Rightarrow> pyval \<Rightarrow> fields \<Rightarrow> fields io" where
  "card_step env aspect_ratio card_ref card_layout_data =
     io_bind (io_lift (py_id card_ref)) (\<lambda>card_id.
     io_bind (get_card_data env card_id aspect_ratio) (\<lambda>card_data.
     io_lift (cards_append card_layout_data card_data)))"

definition get_card_layout_data :: "env \<Rightarrow> string \<Rightarrow> fields io" where
  "get_card_layout_data env layout_id =
     io_bind (get_entry_by_id env layout_id) (\<lambda>config_obj.
     let config_fields = entry_fields config_obj;
         aspect_ratio = fields_get config_fields ''aspect_ratio'';
         layout = content_type_id config_obj in
     io_bind (io_lift (get_layout_class (PStr layout))) (\<lambda>layout_class.
     let card_layout_data =
           [(''component'', PStr ''cardLayout''),
            (''layout_class'', PStr layout_class),
            (''aspect_ratio'', aspect_ratio),
            (''cards'', PList [])] in
     io_bind
       (if layout = ''layout5Cards'' then
          io_bind (io_lift (py_id (fields_get config_fields ''large_card''))) (\<lambda>card_layout_id.
          io_bind (io_lift (py_fields (fields_get config_fields ''large_card''))) (\<lambda>large_fields.
          io_bind (io_lift (py_id (fields_get large_fields ''card''))) (\<lambda>card_id.
          io_bind (get_large_card_data env card_layout_id card_id) (\<lambda>large_card_data.
          io_lift (cards_append card_layout_data large_card_data)))))
        else io_return card_layout_data) (\<lambda>card_layout_data.
     let cards = fields_get config_fields ''content'' in
     io_bind (io_lift (py_iter cards)) (\<lambda>cards.
     io_fold (card_step env aspect_ratio) cards card_layout_data))))"

text \<open>The bodies of the three loops of \<^verbatim>\<open>get_content\<close>.\<close>

definition general_step :: "env \<Rightarrow> string \<times> pyval \<Rightarrow> pyval list \<Rightarrow> pyval list io" where
  "general_step env kv entries =
     (let key = fst kv; v = snd kv in
      if key = ''component_hero'' then
        io_bind (io_lift (py_id v)) (\<lambda>i.
        io_bind (get_hero_data env i) (\<lambda>d. io_return (entries @ [PDict d])))
      else if key = ''body'' then
        io_bind (get_text_data env v) (\<lambda>d. io_return (entries @ [PDict d]))
      else if key = ''layout_callout'' then
        io_bind (io_lift (py_id v)) (\<lambda>i.
        io_bind (get_callout_data env i) (\<lambda>d. io_return (entries @ [PDict d])))
      else io_return entries)"

definition versatile_step :: "env \<Rightarrow> pyval \<Rightarrow> pyval list \<Rightarrow> pyval list io" where
  "versatile_step env item entries =
     io_bind (io_lift (py_content_type_id item)) (\<lambda>content_type.
     if content_type = ''componentHero'' then
       io_bind (io_lift (py_id item)) (\<lambda>i.
       io_bind (get_hero_data env i) (\<lambda>d. io_return (entries @ [PDict d])))
     else if content_type = ''layoutCallout'' then
       io_bind (io_lift (py_id item)) (\<lambda>i.
       io_bind (get_callout_data env i) (\<lambda>d. io_return (entries @ [PDict d])))
     else io_return entries)"

definition home_step :: "env \<Rightarrow> pyval \<Rightarrow> pyval list \<Rightarrow> pyval list io" where
  "home_step env item entries =
     io_bind (io_lift (py_content_type_id item)) (\<lambda>content_type.
     if content_type = ''componentHero'' then
       io_bind (io_lift (py_id item)) (\<lambda>i.
       io_bind (get_hero_data env i) (\<lambda>d. io_return (entries @ [PDict d])))
     else if content_type = ''componentSectionHeading'' then
       io_bind (io_lift (py_id item)) (\<lambda>i.
       io_bind (get_section_heading_data env i) (\<lambda>d. io_return (entries @ [PDict d])))
     else if content_type = ''layoutCallout'' then
       io_bind (io_lift (py_id item)) (\<lambda>i.
       io_bind (get_callout_data env i) (\<lambda>d. io_return (entries @ [PDict d])))
     else if content_type = ''layout2Cards'' then
       io_bind (io_lift (py_id item)) (\<lambda>i.
       io_bind (get_card_layout_data env i) (\<lambda>d. io_return (entries @ [PDict d])))
     else if content_type = ''layout3Cards'' then
       io_bind (io_lift (py_id item)) (\<lambda>i.
       io_bind (get_card_layout_data env i) (\<lambda>d. io_return (entries @ [PDict d])))
     else if content_type = ''layout5Cards'' then
       io_bind (io_lift (py_id item)) (\<lambda>i.
       io_bind (get_card_layout_data env i) (\<lambda>d. io_return (entries @ [PDict d])))
     else io_return entries)"

text \<open>\<^verbatim>\<open>fields.items()\<close> on the value stored under \<^verbatim>\<open>page_data['fields']\<close>.\<close>

fun py_items :: "pyval \<Rightarrow> error + (string \<times> pyval) list" where
  "py_items (PDict d) = Inr d"
| "py_items v = Inl AttributeError"

text \<open>
  \<^verbatim>\<open>get_content\<close> as the source has it: after loading the page data, the page type is
  read with \<^verbatim>\<open>page_id['page_type']\<close>, a subscript of the page id, which is the string
  passed to \<^verbatim>\<open>client.entry\<close>.
\<close>

definition get_content :: "env \<Rightarrow> string \<Rightarrow> fields io" where
  "get_content env page_id =
     io_bind (get_page_data env page_id) (\<lambda>page_data.
     io_bind (io_lift (str_getitem page_id (PStr ''page_type''))) (\<lambda>page_type.
     io_bind (io_lift (fields_item page_data ''fields'')) (\<lambda>flds.
     io_bind
       (if page_type = PStr ''pageGeneral'' then
          io_bind (io_lift (py_items flds)) (\<lambda>items.
          io_fold (general_step env) items [])
        else if page_type = PStr ''pageVersatile'' then
          io_bind (io_lift (py_get flds ''content'')) (\<lambda>content.
          io_bind (io_lift (py_iter content)) (\<lambda>items.
          io_fold (versatile_step env) items []))
        else if page_type = PStr ''pageHome'' then
          io_bind (io_lift (py_get flds ''content'')) (\<lambda>content.
          io_bind (io_lift (py_iter content)) (\<lambda>items.
          io_fold (home_step env) items []))
        else io_return []) (\<lambda>entries.
     io_bind (io_lift (fields_item page_data ''info'')) (\<lambda>info.
     io_return
       [(''page_type'', page_type),
        (''info'', info),
        (''entries'', PList entries)])))))"

section \<open>An example space\<close>

text \<open>
  Stand-ins for the two library methods, used by the examples only. The renderer turns a
  text node into a paragraph and, like any method call on a value that is not a
  document, fails on \<^verbatim>\<open>None\<close>. The asset method appends its keyword arguments to the
  URL of the file, as the client library does.
\<close>

definition example_render :: "pyval \<Rightarrow> error + string" where
  "example_render v =
     (case v of
        PDict d \<Rightarrow>
          (case map_of d ''value'' of
             Some (PStr s) \<Rightarrow> Inr (''<p>'' @ s @ ''</p>'')
           | _ \<Rightarrow> Inr [])
      | _ \<Rightarrow> Inl AttributeError)"

function show_nat :: "nat \<Rightarrow> string" where
  "show_nat n =
     (if n < 10 then [''0123456789'' ! n]
      else show_nat (n div 10) @ [''0123456789'' ! (n mod 10)])"
  by pat_completeness auto
termination
  by (relation "measure id") auto

declare show_nat.simps [simp del]

fun show_arg :: "string \<times> pyval \<Rightarrow> string" where
  "show_arg (k, PInt i) = k @ ''='' @ (if i < 0 then ''-'' @ show_nat (nat (- i)) else show_nat (nat i))"
| "show_arg (k, PStr s) = k @ ''='' @ s"
| "show_arg (k, v) = k @ ''=''"

fun join_args :: "string list \<Rightarrow> string" where
  "join_args [] = []"
| "join_args [a] = a"
| "join_args (a # b # bs) = a @ ''&'' @ join_args (b # bs)"

definition example_asset_url :: "fields \<Rightarrow> (string \<times> pyval) list \<Rightarrow> error + string" where
  "example_asset_url f kwargs =
     (case fields_get f ''file'' of
        PDict file \<Rightarrow>
          (case fields_get file ''url'' of
             PStr u \<Rightarrow> Inr (if kwargs = [] then u else u @ ''?'' @ join_args (map show_arg kwargs))
           | _ \<Rightarrow> Inl TypeError)
      | _ \<Rightarrow> Inl AttributeError)"

text \<open>The entries of the space.\<close>

definition photo :: pyval where
  "photo = PAsset ''photo'' [(''file'', PDict [(''url'', PStr ''//images.example/photo.jpg'')])]"

definition banner :: pyval where
  "banner = PAsset ''banner'' [(''file'', PDict [(''url'', PStr ''//images.example/banner.jpg'')])]"

definition cta1_fields :: fields where
  "cta1_fields = [(''label'', PStr ''Download''), (''action'', PStr ''/download/'')]"

definition hero1_fields :: fields where
  "hero1_fields =
     [(''heading'', PStr ''Welcome''),
      (''body'', PDict [(''nodeType'', PStr ''text''), (''value'', PStr ''Fast.'')]),
      (''image'', photo),
      (''image_position'', PStr ''Left''),
      (''theme'', PStr ''Dark''),
      (''product_icon'', PStr ''Firefox''),
      (''cta'', PEntry ''cta1'' ''componentCtaButton'' cta1_fields)]"

definition card1_fields :: fields where
  "card1_fields =
     [(''heading'', PStr ''One''),
      (''tag'', PStr ''News''),
      (''link'', PStr ''/one/''),
      (''body'', PDict [(''nodeType'', PStr ''text''), (''value'', PStr ''First.'')]),
      (''image'', photo)]"

definition card2_fields :: fields where
  "card2_fields =
     [(''heading'', PStr ''Two''),
      (''link'', PStr ''/two/''),
      (''image'', photo)]"

definition large1_fields :: fields where
  "large1_fields =
     [(''image'', banner),
      (''card'', PEntry ''card1'' ''componentCard'' card1_fields)]"

definition layout3_fields :: fields where
  "layout3_fields =
     [(''aspect_ratio'', PStr ''16:9''),
      (''content'',
        PList [PEntry ''card1'' ''componentCard'' card1_fields,
               PEntry ''card2'' ''componentCard'' card2_fields,
               PEntry ''card1'' ''componentCard'' card1_fields])]"

definition layout5_fields :: fields where
  "layout5_fields =
     [(''aspect_ratio'', PStr ''3:2''),
      (''large_card'', PEntry ''large1'' ''componentLargeCard'' large1_fields),
      (''content'',
        PList [PEntry ''card2'' ''componentCard'' card2_fields,
               PEntry ''card1'' ''componentCard'' card1_fields])]"

definition calloutc1_fields :: fields where
  "calloutc1_fields =
     [(''heading'', PStr ''Get it''),
      (''product_icon'', PStr ''Firefox Beta'')]"

definition callout1_fields :: fields where
  "callout1_fields =
     [(''theme'', PStr ''Dark''),
      (''component_callout'', PEntry ''calloutc1'' ''componentCallout'' calloutc1_fields)]"

definition heading1_fields :: fields where
  "heading1_fields = [(''heading'', PStr ''More'')]"

definition home_fields :: fields where
  "home_fields =
     [(''preview_title'', PStr ''Home''),
      (''preview_blurb'', PStr ''The home page''),
      (''content'',
        PList [PEntry ''hero1'' ''componentHero'' hero1_fields,
               PEntry ''layout3'' ''layout3Cards'' layout3_fields])]"

definition about_fields :: fields where
  "about_fields =
     [(''preview_title'', PStr ''About''),
      (''preview_blurb'', PStr ''About us''),
      (''slug'', PStr ''about''),
      (''preview_image'', photo),
      (''content'', PList [PEntry ''callout1'' ''layoutCallout'' callout1_fields])]"

definition example_entries :: "entry list" where
  "example_entries =
     [\<lparr>entry_id = ''home'', content_type_id = ''pageHome'', entry_fields = home_fields\<rparr>,
      \<lparr>entry_id = ''about'', content_type_id = ''pageVersatile'', entry_fields = about_fields\<rparr>,
      \<lparr>entry_id = ''hero1'', content_type_id = ''componentHero'', entry_fields = hero1_fields\<rparr>,
      \<lparr>entry_id = ''cta1'', content_type_id = ''componentCtaButton'', entry_fields = cta1_fields\<rparr>,
      \<lparr>entry_id = ''heading1'', content_type_id = ''componentSectionHeading'',
        entry_fields = heading1_fields\<rparr>,
      \<lparr>entry_id = ''callout1'', content_type_id = ''layoutCallout'', entry_fields = callout1_fields\<rparr>,
      \<lparr>entry_id = ''calloutc1'', content_type_id = ''componentCallout'',
        entry_fields = calloutc1_fields\<rparr>,
      \<lparr>entry_id = ''layout3'', content_type_id = ''layout3Cards'', entry_fields = layout3_fields\<rparr>,
      \<lparr>entry_id = ''layout5'', content_type_id = ''layout5Cards'', entry_fields = layout5_fields\<rparr>,
      \<lparr>entry_id = ''large1'', content_type_id = ''componentLargeCard'', entry_fields = large1_fields\<rparr>,
      \<lparr>entry_id = ''card1'', content_type_id = ''componentCard'', entry_fields = card1_fields\<rparr>,
      \<lparr>entry_id = ''card2'', content_type_id = ''componentCard'', entry_fields = card2_fields\<rparr>]"

definition example_env :: env where
  "example_env =
     \<lparr>client = Some example_entries,
      renderer_render = example_render,
      asset_url = example_asset_url\<rparr>"

section \<open>The large card as the specification words it\<close>

text \<open>
  The specification describes the large card as: extract the referenced card as an
  ordinary card at \<^verbatim>\<open>16:9\<close>, then relabel it as \<^verbatim>\<open>large_card\<close> and re-derive both image
  URLs from the layout-level image at width 1860 and aspect \<^verbatim>\<open>16:9\<close>. Every other field
  of the card is kept. This definition follows those words; it is compared below with
  \<open>get_large_card_data\<close>, which follows the source.
\<close>

definition relabel_large_card :: "string \<Rightarrow> fields \<Rightarrow> fields" where
  "relabel_large_card u card_data =
     map (\<lambda>kv.
            if fst kv = ''component'' then (fst kv, PStr ''large_card'')
            else if fst kv = ''highres_image_url'' \<or> fst kv = ''image_url'' then (fst kv, PStr u)
            else kv) card_data"

definition large_card_spec :: "env \<Rightarrow> string \<Rightarrow> string \<Rightarrow> error + fields" where
  "large_card_spec env card_layout_id card_id =
     (case fst (get_card_data env card_id (PStr ''16:9'')) of
        Inl err \<Rightarrow> Inl err
      | Inr card_data \<Rightarrow>
     (case fst (get_entry_by_id env card_layout_id) of
        Inl err \<Rightarrow> Inl err
      | Inr large_card_layout \<Rightarrow>
     (case get_image_url env (fields_get (entry_fields large_card_layout) ''image'') 1860
             (PStr ''16:9'') of
        Inl err \<Rightarrow> Inl err
      | Inr u \<Rightarrow> Inr (relabel_large_card u card_data))))"

text \<open>What the extraction functions return on the example space.\<close>

definition card1_16_9 :: fields where
  "card1_16_9 =
     [(''component'', PStr ''card''),
      (''heading'', PStr ''One''),
      (''tag'', PStr ''News''),
      (''link'', PStr ''/one/''),
      (''body'', PStr ''<p>First.</p>''),
      (''aspect_ratio'', PStr ''mzp-has-aspect-16-9''),
      (''highres_image_url'', PStr ''https://images.example/photo.jpg?w=800&h=450&fit=fill&f=faces''),
      (''image_url'', PStr ''https://images.example/photo.jpg?w=800&h=450&fit=fill&f=faces'')]"

definition card1_3_2 :: fields where
  "card1_3_2 =
     [(''component'', PStr ''card''),
      (''heading'', PStr ''One''),
      (''tag'', PStr ''News''),
      (''link'', PStr ''/one/''),
      (''body'', PStr ''<p>First.</p>''),
      (''aspect_ratio'', PStr ''mzp-has-aspect-3-2''),
      (''highres_image_url'', PStr ''https://images.example/photo.jpg?w=800&h=533&fit=fill&f=faces''),
      (''image_url'', PStr ''https://images.example/photo.jpg?w=800&h=533&fit=fill&f=faces'')]"

definition card2_3_2 :: fields where
  "card2_3_2 =
     [(''component'', PStr ''card''),
      (''heading'', PStr ''Two''),
      (''tag'', PNone),
      (''link'', PStr ''/two/''),
      (''body'', PStr []),
      (''aspect_ratio'', PStr ''mzp-has-aspect-3-2''),
      (''highres_image_url'', PStr ''https://images.example/photo.jpg?w=800&h=533&fit=fill&f=faces''),
      (''image_url'', PStr ''https://images.example/photo.jpg?w=800&h=533&fit=fill&f=faces'')]"

definition large1_card1 :: fields where
  "large1_card1 =
     [(''component'', PStr ''large_card''),
      (''heading'', PStr ''One''),
      (''tag'', PStr ''News''),
      (''link'', PStr ''/one/''),
      (''body'', PStr ''<p>First.</p>''),
      (''aspect_ratio'', PStr ''mzp-has-aspect-16-9''),
      (''highres_image_url'', PStr ''https://images.example/banner.jpg?w=1860&h=1046&fit=fill&f=faces''),
      (''image_url'', PStr ''https://images.example/banner.jpg?w=1860&h=1046&fit=fill&f=faces'')]"

definition layout5_data :: fields where
  "layout5_data =
     [(''component'', PStr ''cardLayout''),
      (''layout_class'', PStr ''mzp-l-card-hero''),
      (''aspect_ratio'', PStr ''3:2''),
      (''cards'', PList [PDict large1_card1, PDict card2_3_2, PDict card1_3_2])]"

definition cta1_data :: fields where
  "cta1_data =
     [(''component'', PStr ''componentCtaButton''),
      (''label'', PStr ''Download''),
      (''action'', PStr ''/download/''),
      (''size'', PStr ''mzp-t-xl''),
      (''theme'', PStr ''mzp-t-primary''),
      (''include_cta'', PBool True)]"

definition hero1_data :: fields where
  "hero1_data =
     [(''component'', PStr ''hero''),
      (''theme_class'', PStr ''mzp-t-dark''),
      (''product_class'', PStr ''mzp-t-product-firefox''),
      (''title'', PStr ''Welcome''),
      (''tagline'', PNone),
      (''body'', PStr ''<p>Fast.</p>''),
      (''image'', PStr ''https://images.example/photo.jpg''),
      (''image_position'', PStr ''Left''),
      (''image_class'', PStr ''mzp-l-reverse''),
      (''cta'', PDict cta1_data)]"

definition callout1_data :: fields where
  "callout1_data =
     [(''component'', PStr ''callout''),
      (''theme_class'', PStr ''mzp-t-dark''),
      (''product_class'', PStr ''mzp-t-product-beta''),
      (''title'', PStr ''Get it''),
      (''body'', PStr []),
      (''cta'', PDict [(''include_cta'', PBool False)])]"

definition about_info :: fields where
  "about_info =
     [(''title'', PStr ''About''),
      (''blurb'', PStr ''About us''),
      (''slug'', PStr ''about''),
      (''image'', PStr ''https://images.example/photo.jpg'')]"

definition heading1_data :: fields where
  "heading1_data = [(''component'', PStr ''sectionHeading''), (''heading'', PStr ''More'')]"

definition text1 :: pyval where
  "text1 = PDict [(''nodeType'', PStr ''text''), (''value'', PStr ''Fast.'')]"

definition text1_data :: fields where
  "text1_data =
     [(''component'', PStr ''text''),
      (''body'', PStr ''<p>Fast.</p>''),
      (''width_class'', PStr ''mzp-t-content-md'')]"

definition layout3_data :: fields where
  "layout3_data =
     [(''component'', PStr ''cardLayout''),
      (''layout_class'', PStr ''mzp-l-card-third''),
      (''aspect_ratio'', PStr ''16:9''),
      (''cards'',
        PList [PDict card1_16_9,
               PDict
                 [(''component'', PStr ''card''),
                  (''heading'', PStr ''Two''),
                  (''tag'', PNone),
                  (''link'', PStr ''/two/''),
                  (''body'', PStr []),
                  (''aspect_ratio'', PStr ''mzp-has-aspect-16-9''),
                  (''highres_image_url'',
                    PStr ''https://images.example/photo.jpg?w=800&h=450&fit=fill&f=faces''),
                  (''image_url'',
                    PStr ''https://images.example/photo.jpg?w=800&h=450&fit=fill&f=faces'')],
               PDict card1_16_9])]"

definition about_page_data :: fields where
  "about_page_data =
     [(''page_type'', PStr ''pageVersatile''),
      (''info'', PDict about_info),
      (''fields'', PDict about_fields)]"

section \<open>Laws of the effect type\<close>

lemma io_bind_return [simp]: "io_bind (io_return x) f = f x"
  by (simp add: io_bind_def io_return_def split: prod.splits)

lemma io_bind_raise [simp]: "io_bind (io_raise e) f = io_raise e"
  by (simp add: io_bind_def io_raise_def)

lemma io_bind_lift_Inr [simp]: "io_bind (io_lift (Inr x)) f = f x"
  by (simp add: io_bind_def io_lift_def split: prod.splits)

lemma io_bind_lift_Inl [simp]: "io_bind (io_lift (Inl e)) f = io_raise e"
  by (simp add: io_bind_def io_lift_def io_raise_def)

lemma io_bind_Inr [simp]: "io_bind (Inr x, t) f = (fst (f x), t @ snd (f x))"
  by (simp add: io_bind_def split: prod.splits)

lemma io_bind_Inl [simp]: "io_bind (Inl e, t) f = (Inl e, t)"
  by (simp add: io_bind_def)

lemma fst_io_bind:
  "fst (io_bind m f) = (case fst m of Inl e \<Rightarrow> Inl e | Inr x \<Rightarrow> fst (f x))"
  by (cases m) (simp add: io_bind_def split: sum.splits prod.splits)

lemma snd_io_bind:
  "snd (io_bind m f) = (case fst m of Inl e \<Rightarrow> snd m | Inr x \<Rightarrow> snd m @ snd (f x))"
  by (cases m) (simp add: io_bind_def split: sum.splits prod.splits)

lemma fst_io_return [simp]: "fst (io_return x) = Inr x"
  by (simp add: io_return_def)

lemma snd_io_return [simp]: "snd (io_return x) = []"
  by (simp add: io_return_def)

lemma fst_io_raise [simp]: "fst (io_raise e) = Inl e"
  by (simp add: io_raise_def)

lemma snd_io_raise [simp]: "snd (io_raise e) = []"
  by (simp add: io_raise_def)

lemma fst_io_lift [simp]: "fst (io_lift r) = r"
  by (simp add: io_lift_def)

lemma snd_io_lift [simp]: "snd (io_lift r) = []"
  by (simp add: io_lift_def)

lemma fst_render [simp]: "fst (render env v) = renderer_render env v"
  by (simp add: render_def)

lemma snd_render [simp]: "snd (render env v) = [Render v]"
  by (simp add: render_def)

lemma snd_client_entry:
  "snd (client_entry env i) = (case client env of None \<Rightarrow> [] | Some es \<Rightarrow> [Fetch i])"
  by (simp add: client_entry_def io_raise_def split: option.splits)

lemma client_entry_found:
  "client env = Some es \<Longrightarrow> find (\<lambda>e. entry_id e = i) es = Some e \<Longrightarrow>
   client_entry env i = (Inr e, [Fetch i])"
  by (simp add: client_entry_def)

section \<open>The aspect multipliers\<close>

lemma literal_0_6666_nearest:
  "map_of ASPECT_MULTIPLIER ''3:2'' = Some (PyFloat (Finite 6004199023210345 (- 53)))
   \<and> (2::int) ^ 52 \<le> 6004199023210345 \<and> (6004199023210345::int) < 2 ^ 53
   \<and> 2 * \<bar>10000 * 6004199023210345 - 6666 * (2::int) ^ 53\<bar> \<le> 10000"
  by (simp add: ASPECT_MULTIPLIER_def)

lemma literal_0_5625_exact:
  "map_of ASPECT_MULTIPLIER ''16:9'' = Some (PyFloat (Finite 9 (- 4)))
   \<and> (9::int) * 10000 = 5625 * 2 ^ 4"
  by (simp add: ASPECT_MULTIPLIER_def)

lemma bit_length_le: "n < 2 ^ k \<Longrightarrow> bit_length n \<le> k"
proof (induction k arbitrary: n)
  case 0
  then show ?case by (simp add: bit_length.simps)
next
  case (Suc k)
  show ?case
  proof (cases "n \<le> 0")
    case True
    then show ?thesis by (simp add: bit_length.simps)
  next
    case False
    from Suc.prems have "n div 2 < 2 ^ k" by simp
    then have "bit_length (n div 2) \<le> k" by (rule Suc.IH)
    with False show ?thesis by (subst bit_length.simps) simp
  qed
qed

lemma float_round_exact:
  assumes "\<bar>m\<bar> < 2 ^ 53" and "e \<le> 0"
  shows "float_round m e = Finite m e"
proof -
  from assms(1) have "bit_length \<bar>m\<bar> \<le> 53" by (rule bit_length_le)
  with assms(2) show ?thesis by (simp add: float_round_def Let_def)
qed

text \<open>
  Below \<open>2 ^ 49\<close> in magnitude the float arithmetic at \<^verbatim>\<open>16:9\<close> is exact: the height is
  \<open>9 * width / 16\<close> rounded to the nearest integer, ties to even.
\<close>

lemma get_height_16_9_exact:
  assumes "\<bar>w\<bar> < 2 ^ 49"
  shows "get_height w (PStr ''16:9'') = Inr (round_half_even_shift (9 * w) 4)"
proof -
  from assms have w: "\<bar>w\<bar> < 2 ^ 53" by simp
  from assms have w9: "\<bar>w * 9\<bar> < 2 ^ 53" by simp
  have "float_of_int w = Inr (Finite w 0)"
    by (simp add: float_of_int_def float_round_exact [OF w])
  moreover have "float_round (w * 9) (- 4) = Finite (w * 9) (- 4)"
    by (rule float_round_exact [OF w9]) simp
  ultimately show ?thesis
    by (simp add: get_height_def dict_get_def ASPECT_MULTIPLIER_def mult.commute)
qed

text \<open>
  C9. For every integer width and every aspect-ratio string, \<^verbatim>\<open>_get_height\<close> is
  \<^verbatim>\<open>round(width * multiplier)\<close>, in Python's arithmetic, where the multiplier is 1 for
  \<^verbatim>\<open>1:1\<close>, the float 0.6666 for \<^verbatim>\<open>3:2\<close>, the float 0.5625 for \<^verbatim>\<open>16:9\<close> and 0 for any other
  string. So an unknown aspect ratio gives the height 0 and no error, \<^verbatim>\<open>1:1\<close> gives the
  width itself, and width 800 at \<^verbatim>\<open>16:9\<close> gives 450.
\<close>

theorem get_height_round_multiplier:
  "get_height w (PStr a) =
     (case py_mul w
        (if a = ''1:1'' then PyInt 1
         else if a = ''3:2'' then PyFloat (Finite 6004199023210345 (- 53))
         else if a = ''16:9'' then PyFloat (Finite 9 (- 4))
         else PyInt 0) of
        Inl err \<Rightarrow> Inl err
      | Inr p \<Rightarrow> py_round p)
   \<and> (a \<notin> {''1:1'', ''3:2'', ''16:9''} \<longrightarrow> get_height w (PStr a) = Inr 0)
   \<and> get_height w (PStr ''1:1'') = Inr w
   \<and> get_height 800 (PStr ''16:9'') = Inr 450"
proof -
  have h450: "get_height 800 (PStr ''16:9'') = Inr 450"
    by code_simp
  show ?thesis
    using h450 by (simp add: get_height_def dict_get_def ASPECT_MULTIPLIER_def)
qed

theorem get_height_round_multiplier_witness:
  "''4:3'' \<notin> {''1:1'', ''3:2'', ''16:9''}
   \<and> get_height 1860 (PStr ''4:3'') = Inr 0
   \<and> get_height 1860 (PStr ''1:1'') = Inr 1860
   \<and> get_height 800 (PStr ''16:9'') = Inr 450"
  using get_height_round_multiplier [of 1860 "''4:3''"] by simp

section \<open>Style helpers\<close>

text \<open>
  C8. For every string that is not a key of its table, each style helper returns its
  default and raises nothing: the aspect-ratio, product and width helpers return their
  prefix with the trailing hyphen, the layout and dark-theme helpers return the empty
  string.
\<close>

theorem style_helpers_default:
  "(map_of ASPECT_RATIOS s = None \<longrightarrow> get_aspect_ratio_class (PStr s) = Inr ''mzp-has-aspect-'')
   \<and> (map_of PRODUCT_THEMES s = None \<longrightarrow> get_product_class (PStr s) = Inr ''mzp-t-product-'')
   \<and> (map_of WIDTHS s = None \<longrightarrow> get_width_class (PStr s) = Inr ''mzp-t-content-'')
   \<and> (map_of LAYOUT_CLASS s = None \<longrightarrow> get_layout_class (PStr s) = Inr [])
   \<and> (s \<noteq> ''Dark'' \<longrightarrow> get_theme_class (PStr s) = [])"
  by (simp add: get_aspect_ratio_class_def get_product_class_def get_width_class_def
      get_abbr_from_width_def get_layout_class_def get_theme_class_def dict_get_def)

theorem style_helpers_default_witness:
  "map_of ASPECT_RATIOS ''4:3'' = None
   \<and> get_aspect_ratio_class (PStr ''4:3'') = Inr ''mzp-has-aspect-''
   \<and> map_of PRODUCT_THEMES ''4:3'' = None
   \<and> get_product_class (PStr ''4:3'') = Inr ''mzp-t-product-''
   \<and> map_of WIDTHS ''4:3'' = None
   \<and> get_width_class (PStr ''4:3'') = Inr ''mzp-t-content-''
   \<and> map_of LAYOUT_CLASS ''4:3'' = None
   \<and> get_layout_class (PStr ''4:3'') = Inr []
   \<and> ''4:3'' \<noteq> ''Dark''
   \<and> get_theme_class (PStr ''4:3'') = []"
proof -
  have h: "map_of ASPECT_RATIOS ''4:3'' = None" "map_of PRODUCT_THEMES ''4:3'' = None"
    "map_of WIDTHS ''4:3'' = None" "map_of LAYOUT_CLASS ''4:3'' = None" "''4:3'' \<noteq> ''Dark''"
    by (simp_all add: ASPECT_RATIOS_def PRODUCT_THEMES_def WIDTHS_def LAYOUT_CLASS_def)
  show ?thesis
    using h style_helpers_default [of "''4:3''"] by simp
qed

section \<open>Calls to action\<close>

text \<open>
  C7. When the CTA reference is falsy, \<^verbatim>\<open>get_cta_data\<close> returns exactly
  \<^verbatim>\<open>{'include_cta': False}\<close> and calls neither the client nor the renderer. When the
  reference is truthy and the extraction returns, the result holds \<^verbatim>\<open>include_cta: True\<close>
  with the label and the action of the fetched entry and the fixed size \<^verbatim>\<open>mzp-t-xl\<close> and
  theme \<^verbatim>\<open>mzp-t-primary\<close>; and it does return when the reference is an entry that the
  client finds, after that one fetch.
\<close>

theorem get_cta_data_absent_present:
  "(\<not> truthy cta \<longrightarrow> get_cta_data env cta = (Inr [(''include_cta'', PBool False)], []))
   \<and> (truthy cta \<longrightarrow> fst (get_cta_data env cta) = Inr r \<longrightarrow>
        (\<exists>i e. py_id cta = Inr i \<and> fst (client_entry env i) = Inr e
           \<and> r = [(''component'', PStr (content_type_id e)),
                  (''label'', fields_get (entry_fields e) ''label''),
                  (''action'', fields_get (entry_fields e) ''action''),
                  (''size'', PStr ''mzp-t-xl''),
                  (''theme'', PStr ''mzp-t-primary''),
                  (''include_cta'', PBool True)]))
   \<and> (client env = Some es \<longrightarrow> find (\<lambda>x. entry_id x = j) es = Some e' \<longrightarrow>
        get_cta_data env (PEntry j c f) =
          (Inr [(''component'', PStr (content_type_id e')),
                (''label'', fields_get (entry_fields e') ''label''),
                (''action'', fields_get (entry_fields e') ''action''),
                (''size'', PStr ''mzp-t-xl''),
                (''theme'', PStr ''mzp-t-primary''),
                (''include_cta'', PBool True)],
           [Fetch j]))"
proof (intro conjI impI)
  assume "\<not> truthy cta"
  then show "get_cta_data env cta = (Inr [(''include_cta'', PBool False)], [])"
    by (simp add: get_cta_data_def io_return_def)
next
  assume "truthy cta" and "fst (get_cta_data env cta) = Inr r"
  then show "\<exists>i e. py_id cta = Inr i \<and> fst (client_entry env i) = Inr e
           \<and> r = [(''component'', PStr (content_type_id e)),
                  (''label'', fields_get (entry_fields e) ''label''),
                  (''action'', fields_get (entry_fields e) ''action''),
                  (''size'', PStr ''mzp-t-xl''),
                  (''theme'', PStr ''mzp-t-primary''),
                  (''include_cta'', PBool True)]"
    by (cases "py_id cta")
       (auto simp: get_cta_data_def get_entry_by_id_def fst_io_bind Let_def split: sum.splits)
next
  assume "client env = Some es" and "find (\<lambda>x. entry_id x = j) es = Some e'"
  then show "get_cta_data env (PEntry j c f) =
          (Inr [(''component'', PStr (content_type_id e')),
                (''label'', fields_get (entry_fields e') ''label''),
                (''action'', fields_get (entry_fields e') ''action''),
                (''size'', PStr ''mzp-t-xl''),
                (''theme'', PStr ''mzp-t-primary''),
                (''include_cta'', PBool True)],
           [Fetch j])"
    by (simp add: get_cta_data_def get_entry_by_id_def client_entry_found Let_def)
qed

theorem get_cta_data_absent_present_witness:
  "\<not> truthy PNone
   \<and> get_cta_data example_env PNone = (Inr [(''include_cta'', PBool False)], [])
   \<and> truthy (PEntry ''cta1'' ''componentCtaButton'' cta1_fields)
   \<and> client example_env = Some example_entries
   \<and> find (\<lambda>x. entry_id x = ''cta1'') example_entries
       = Some \<lparr>entry_id = ''cta1'', content_type_id = ''componentCtaButton'',
               entry_fields = cta1_fields\<rparr>
   \<and> get_cta_data example_env (PEntry ''cta1'' ''componentCtaButton'' cta1_fields) =
          (Inr [(''component'', PStr ''componentCtaButton''),
                (''label'', PStr ''Download''),
                (''action'', PStr ''/download/''),
                (''size'', PStr ''mzp-t-xl''),
                (''theme'', PStr ''mzp-t-primary''),
                (''include_cta'', PBool True)],
           [Fetch ''cta1''])"
proof -
  have h1: "\<not> truthy PNone" "truthy (PEntry ''cta1'' ''componentCtaButton'' cta1_fields)"
    by simp_all
  have h2: "client example_env = Some example_entries"
    by (simp add: example_env_def)
  have h3: "find (\<lambda>x. entry_id x = ''cta1'') example_entries
       = Some \<lparr>entry_id = ''cta1'', content_type_id = ''componentCtaButton'',
               entry_fields = cta1_fields\<rparr>"
    by (simp add: example_entries_def)
  show ?thesis
    using h1 h2 h3
      get_cta_data_absent_present [of PNone example_env _ example_entries "''cta1''"
        "\<lparr>entry_id = ''cta1'', content_type_id = ''componentCtaButton'',
          entry_fields = cta1_fields\<rparr>" "''componentCtaButton''" cta1_fields]
    by (simp add: fields_get_def cta1_fields_def)
qed

section \<open>What each extraction returns\<close>

lemma fst_io_bind_Inr_iff:
  "fst (io_bind m f) = Inr y \<longleftrightarrow> (\<exists>x. fst m = Inr x \<and> fst (f x) = Inr y)"
  by (simp add: fst_io_bind split: sum.splits)

lemma set_snd_io_bind:
  "set (snd (io_bind m f)) =
     set (snd m) \<union> (case fst m of Inl e \<Rightarrow> {} | Inr x \<Rightarrow> set (snd (f x)))"
  by (simp add: snd_io_bind split: sum.splits)

lemma no_render_client_entry: "Render v \<notin> set (snd (client_entry env i))"
  by (simp add: snd_client_entry split: option.splits)

lemma fst_render_body:
  "fst (render_body env f) =
     (if truthy (fields_get f ''body'') then renderer_render env (fields_get f ''body'')
      else Inr [])"
  by (simp add: render_body_def)

lemma snd_render_body:
  "snd (render_body env f) =
     (if truthy (fields_get f ''body'') then [Render (fields_get f ''body'')] else [])"
  by (simp add: render_body_def)

lemma get_text_data_renders:
  "get_text_data env v =
     (case renderer_render env v of
        Inl e \<Rightarrow> Inl e
      | Inr body \<Rightarrow>
          Inr [(''component'', PStr ''text''), (''body'', PStr body),
               (''width_class'', PStr ''mzp-t-content-md'')],
      [Render v])"
  by (simp add: get_text_data_def render_def get_width_class_def get_abbr_from_width_def
      dict_get_def WIDTHS_def split: sum.splits)

lemma no_render_get_cta_data: "Render v \<notin> set (snd (get_cta_data env cta))"
  by (simp add: get_cta_data_def get_entry_by_id_def set_snd_io_bind no_render_client_entry
      Let_def split: sum.splits)

lemma fst_get_card_data_Inr_iff:
  "fst (get_card_data env card_id aspect_ratio) = Inr r \<longleftrightarrow>
     (\<exists>e body u ac.
        fst (client_entry env card_id) = Inr e
        \<and> fst (render_body env (entry_fields e)) = Inr body
        \<and> get_image_url env (fields_get (entry_fields e) ''image'') 800 aspect_ratio = Inr u
        \<and> get_aspect_ratio_class aspect_ratio = Inr ac
        \<and> r = [(''component'', PStr ''card''),
               (''heading'', fields_get (entry_fields e) ''heading''),
               (''tag'', fields_get (entry_fields e) ''tag''),
               (''link'', fields_get (entry_fields e) ''link''),
               (''body'', PStr body),
               (''aspect_ratio'', PStr ac),
               (''highres_image_url'', PStr u),
               (''image_url'', PStr u)])"
  by (auto simp: get_card_data_def get_entry_by_id_def fst_io_bind_Inr_iff Let_def)

lemma fst_get_large_card_data_Inr_iff:
  "fst (get_large_card_data env card_layout_id card_id) = Inr r \<longleftrightarrow>
     (\<exists>e u card_data.
        fst (client_entry env card_layout_id) = Inr e
        \<and> get_image_url env (fields_get (entry_fields e) ''image'') 1860 (PStr ''16:9'') = Inr u
        \<and> fst (get_card_data env card_id (PStr ''16:9'')) = Inr card_data
        \<and> r = AList.update ''image_url'' (PStr u)
                 (AList.update ''highres_image_url'' (PStr u)
                   (AList.update ''component'' (PStr ''large_card'') card_data)))"
  by (auto simp: get_large_card_data_def get_entry_by_id_def fst_io_bind_Inr_iff Let_def)

text \<open>
  C10. In every card that \<^verbatim>\<open>get_card_data\<close> returns and in every large card that
  \<^verbatim>\<open>get_large_card_data\<close> returns, \<^verbatim>\<open>highres_image_url\<close> equals \<^verbatim>\<open>image_url\<close>: both are the
  URL of the same image at the same width (800 for a card, 1860 for the large card) and
  the same aspect ratio.
\<close>

theorem highres_image_url_is_image_url:
  "(fst (get_card_data env card_id aspect_ratio) = Inr r \<longrightarrow>
      (\<exists>e u. fst (client_entry env card_id) = Inr e
         \<and> get_image_url env (fields_get (entry_fields e) ''image'') 800 aspect_ratio = Inr u
         \<and> map_of r ''highres_image_url'' = Some (PStr u)
         \<and> map_of r ''image_url'' = Some (PStr u)))
   \<and> (fst (get_large_card_data env card_layout_id card_id') = Inr r' \<longrightarrow>
      (\<exists>e u. fst (client_entry env card_layout_id) = Inr e
         \<and> get_image_url env (fields_get (entry_fields e) ''image'') 1860 (PStr ''16:9'') = Inr u
         \<and> map_of r' ''highres_image_url'' = Some (PStr u)
         \<and> map_of r' ''image_url'' = Some (PStr u)))"
  by (auto simp: fst_get_card_data_Inr_iff fst_get_large_card_data_Inr_iff)

theorem highres_image_url_is_image_url_witness:
  "fst (get_card_data example_env ''card2'' (PStr ''3:2'')) = Inr card2_3_2
   \<and> (\<exists>e u. fst (client_entry example_env ''card2'') = Inr e
         \<and> get_image_url example_env (fields_get (entry_fields e) ''image'') 800 (PStr ''3:2'') = Inr u
         \<and> map_of card2_3_2 ''highres_image_url'' = Some (PStr u)
         \<and> map_of card2_3_2 ''image_url'' = Some (PStr u))
   \<and> fst (get_large_card_data example_env ''large1'' ''card1'') = Inr large1_card1
   \<and> (\<exists>e u. fst (client_entry example_env ''large1'') = Inr e
         \<and> get_image_url example_env (fields_get (entry_fields e) ''image'') 1860 (PStr ''16:9'') = Inr u
         \<and> map_of large1_card1 ''highres_image_url'' = Some (PStr u)
         \<and> map_of large1_card1 ''image_url'' = Some (PStr u))"
proof -
  have h1: "fst (get_card_data example_env ''card2'' (PStr ''3:2'')) = Inr card2_3_2"
    by code_simp
  have h2: "fst (get_large_card_data example_env ''large1'' ''card1'') = Inr large1_card1"
    by code_simp
  show ?thesis
    using h1 h2
      highres_image_url_is_image_url [of example_env "''card2''" "PStr ''3:2''" card2_3_2
        "''large1''" "''card1''" large1_card1]
    by simp
qed

section \<open>The large card\<close>

lemma get_card_data_shape:
  "fst (get_card_data env card_id aspect_ratio) = Inr r \<Longrightarrow>
   \<exists>a b c d e f g h.
     r = [(''component'', a), (''heading'', b), (''tag'', c), (''link'', d), (''body'', e),
          (''aspect_ratio'', f), (''highres_image_url'', g), (''image_url'', h)]"
  by (auto simp: fst_get_card_data_Inr_iff)

lemma relabel_card_shape:
  "card_data = [(''component'', a), (''heading'', b), (''tag'', c), (''link'', d), (''body'', e),
          (''aspect_ratio'', f), (''highres_image_url'', g), (''image_url'', h)] \<Longrightarrow>
   AList.update ''image_url'' (PStr u)
     (AList.update ''highres_image_url'' (PStr u)
       (AList.update ''component'' (PStr ''large_card'') card_data))
   = relabel_large_card u card_data"
  by (simp add: relabel_large_card_def)

lemma relabel_card_data:
  assumes "fst (get_card_data env card_id aspect_ratio) = Inr card_data"
  shows "AList.update ''image_url'' (PStr u)
     (AList.update ''highres_image_url'' (PStr u)
       (AList.update ''component'' (PStr ''large_card'') card_data))
   = relabel_large_card u card_data"
proof -
  from get_card_data_shape [OF assms] obtain a b c d e f g h where
    "card_data = [(''component'', a), (''heading'', b), (''tag'', c), (''link'', d), (''body'', e),
          (''aspect_ratio'', f), (''highres_image_url'', g), (''image_url'', h)]"
    by blast
  then show ?thesis by (rule relabel_card_shape)
qed

lemma relabel_large_card_keys: "map fst (relabel_large_card u card_data) = map fst card_data"
  by (induction card_data) (simp_all add: relabel_large_card_def)

lemma relabel_large_card_other:
  "k \<notin> {''component'', ''highres_image_url'', ''image_url''} \<Longrightarrow>
   map_of (relabel_large_card u card_data) k = map_of card_data k"
  by (induction card_data) (auto simp: relabel_large_card_def)

lemma relabel_large_card_values:
  assumes "fst (get_card_data env card_id aspect_ratio) = Inr card_data"
  shows "map_of (relabel_large_card u card_data) ''component'' = Some (PStr ''large_card'')
         \<and> map_of (relabel_large_card u card_data) ''highres_image_url'' = Some (PStr u)
         \<and> map_of (relabel_large_card u card_data) ''image_url'' = Some (PStr u)"
proof -
  from get_card_data_shape [OF assms] obtain a b c d e f g h where
    "card_data = [(''component'', a), (''heading'', b), (''tag'', c), (''link'', d), (''body'', e),
          (''aspect_ratio'', f), (''highres_image_url'', g), (''image_url'', h)]"
    by blast
  then show ?thesis by (simp add: relabel_large_card_def)
qed

lemma large_card_spec_Inr_iff:
  "large_card_spec env card_layout_id card_id = Inr r \<longleftrightarrow>
     (\<exists>e u card_data.
        fst (client_entry env card_layout_id) = Inr e
        \<and> get_image_url env (fields_get (entry_fields e) ''image'') 1860 (PStr ''16:9'') = Inr u
        \<and> fst (get_card_data env card_id (PStr ''16:9'')) = Inr card_data
        \<and> r = relabel_large_card u card_data)"
  by (auto simp: large_card_spec_def get_entry_by_id_def split: sum.splits)

lemma large_card_spec_iff:
  "fst (get_large_card_data env card_layout_id card_id) = Inr r \<longleftrightarrow>
   large_card_spec env card_layout_id card_id = Inr r"
  unfolding fst_get_large_card_data_Inr_iff large_card_spec_Inr_iff
  by (metis relabel_card_data)

text \<open>
  C5. \<^verbatim>\<open>get_large_card_data\<close> returns exactly when the specification's reading does, and
  returns the same dictionary: the card extracted from the referenced entry at \<^verbatim>\<open>16:9\<close>
  with \<^verbatim>\<open>component\<close> set to \<^verbatim>\<open>large_card\<close> and with \<^verbatim>\<open>highres_image_url\<close> and \<^verbatim>\<open>image_url\<close>
  set to the URL of the layout-level image at width 1860 and aspect \<^verbatim>\<open>16:9\<close>. The keys and
  their order are those of the card, and every other key keeps the card's value. No
  aspect ratio of the layout enters the computation.
\<close>

theorem large_card_is_relabelled_card:
  "(fst (get_large_card_data env card_layout_id card_id) = Inr r \<longleftrightarrow>
      large_card_spec env card_layout_id card_id = Inr r)
   \<and> (fst (get_large_card_data env card_layout_id card_id) = Inr r \<longrightarrow>
        (\<exists>card_data e u.
           fst (get_card_data env card_id (PStr ''16:9'')) = Inr card_data
           \<and> fst (client_entry env card_layout_id) = Inr e
           \<and> get_image_url env (fields_get (entry_fields e) ''image'') 1860 (PStr ''16:9'') = Inr u
           \<and> map fst r = map fst card_data
           \<and> map_of r ''component'' = Some (PStr ''large_card'')
           \<and> map_of r ''highres_image_url'' = Some (PStr u)
           \<and> map_of r ''image_url'' = Some (PStr u)
           \<and> (\<forall>k. k \<notin> {''component'', ''highres_image_url'', ''image_url''} \<longrightarrow>
                  map_of r k = map_of card_data k)))"
proof (intro conjI impI)
  show "fst (get_large_card_data env card_layout_id card_id) = Inr r \<longleftrightarrow>
      large_card_spec env card_layout_id card_id = Inr r"
    by (rule large_card_spec_iff)
next
  assume "fst (get_large_card_data env card_layout_id card_id) = Inr r"
  then have "large_card_spec env card_layout_id card_id = Inr r"
    by (simp add: large_card_spec_iff)
  then obtain e u card_data where
    e: "fst (client_entry env card_layout_id) = Inr e" and
    u: "get_image_url env (fields_get (entry_fields e) ''image'') 1860 (PStr ''16:9'') = Inr u" and
    c: "fst (get_card_data env card_id (PStr ''16:9'')) = Inr card_data" and
    r: "r = relabel_large_card u card_data"
    unfolding large_card_spec_Inr_iff by blast
  have keys: "map fst r = map fst card_data"
    unfolding r by (rule relabel_large_card_keys)
  have vals: "map_of r ''component'' = Some (PStr ''large_card'')"
    "map_of r ''highres_image_url'' = Some (PStr u)"
    "map_of r ''image_url'' = Some (PStr u)"
    unfolding r using relabel_large_card_values [OF c, of u] by simp_all
  have other: "\<forall>k. k \<notin> {''component'', ''highres_image_url'', ''image_url''} \<longrightarrow>
                  map_of r k = map_of card_data k"
    unfolding r using relabel_large_card_other by blast
  show "\<exists>card_data e u.
           fst (get_card_data env card_id (PStr ''16:9'')) = Inr card_data
           \<and> fst (client_entry env card_layout_id) = Inr e
           \<and> get_image_url env (fields_get (entry_fields e) ''image'') 1860 (PStr ''16:9'') = Inr u
           \<and> map fst r = map fst card_data
           \<and> map_of r ''component'' = Some (PStr ''large_card'')
           \<and> map_of r ''highres_image_url'' = Some (PStr u)
           \<and> map_of r ''image_url'' = Some (PStr u)
           \<and> (\<forall>k. k \<notin> {''component'', ''highres_image_url'', ''image_url''} \<longrightarrow>
                  map_of r k = map_of card_data k)"
    apply (rule exI [of _ card_data])
    apply (rule exI [of _ e])
    apply (rule exI [of _ u])
    apply (intro conjI)
           apply (rule c)
          apply (rule e)
         apply (rule u)
        apply (rule keys)
       apply (rule vals(1))
      apply (rule vals(2))
     apply (rule vals(3))
    apply (rule other)
    done
qed

theorem large_card_is_relabelled_card_witness:
  "fst (get_large_card_data example_env ''large1'' ''card1'') = Inr large1_card1
   \<and> large_card_spec example_env ''large1'' ''card1'' = Inr large1_card1"
proof -
  have h: "fst (get_large_card_data example_env ''large1'' ''card1'') = Inr large1_card1"
    by code_simp
  from large_card_is_relabelled_card [of example_env "''large1''" "''card1''" large1_card1]
  have "fst (get_large_card_data example_env ''large1'' ''card1'') = Inr large1_card1 \<longleftrightarrow>
      large_card_spec example_env ''large1'' ''card1'' = Inr large1_card1"
    by (rule conjunct1)
  with h show ?thesis by simp
qed

section \<open>Absent bodies\<close>

lemma fst_get_callout_data_Inr_iff:
  "fst (get_callout_data env callout_id) = Inr r \<longleftrightarrow>
     (\<exists>config content_id content body pc cta.
        fst (client_entry env callout_id) = Inr config
        \<and> py_id (fields_get (entry_fields config) ''component_callout'') = Inr content_id
        \<and> fst (client_entry env content_id) = Inr content
        \<and> fst (render_body env (entry_fields content)) = Inr body
        \<and> get_product_class (fields_get (entry_fields content) ''product_icon'') = Inr pc
        \<and> fst (get_cta_data env (fields_get (entry_fields content) ''cta'')) = Inr cta
        \<and> r = [(''component'', PStr ''callout''),
               (''theme_class'', PStr (get_theme_class (fields_get (entry_fields config) ''theme''))),
               (''product_class'', PStr pc),
               (''title'', fields_get (entry_fields content) ''heading''),
               (''body'', PStr body),
               (''cta'', PDict cta)])"
  by (auto simp: get_callout_data_def get_entry_by_id_def fst_io_bind_Inr_iff Let_def)

lemma no_render_get_callout_data:
  assumes "fst (client_entry env callout_id) = Inr config"
    and "py_id (fields_get (entry_fields config) ''component_callout'') = Inr content_id"
    and "fst (client_entry env content_id) = Inr content"
    and "fields_get (entry_fields content) ''body'' = PNone"
  shows "Render v \<notin> set (snd (get_callout_data env callout_id))"
  using assms
  by (simp add: get_callout_data_def get_entry_by_id_def set_snd_io_bind no_render_client_entry
      no_render_get_cta_data snd_render_body fst_render_body Let_def split: sum.splits)

lemma no_render_get_card_data:
  assumes "fst (client_entry env card_id) = Inr c"
    and "fields_get (entry_fields c) ''body'' = PNone"
  shows "Render v \<notin> set (snd (get_card_data env card_id aspect_ratio))"
  using assms
  by (simp add: get_card_data_def get_entry_by_id_def set_snd_io_bind no_render_client_entry
      snd_render_body fst_render_body Let_def split: sum.splits)

text \<open>
  C3, as amended. In a callout and in a card, when the body field of the source entry is
  absent or null, the renderer is not called at all, and if the extraction returns, its
  \<^verbatim>\<open>body\<close> is the empty string.
\<close>

theorem callout_card_absent_body:
  "(fst (client_entry env callout_id) = Inr config \<longrightarrow>
    py_id (fields_get (entry_fields config) ''component_callout'') = Inr content_id \<longrightarrow>
    fst (client_entry env content_id) = Inr content \<longrightarrow>
    fields_get (entry_fields content) ''body'' = PNone \<longrightarrow>
      (\<forall>v. Render v \<notin> set (snd (get_callout_data env callout_id)))
      \<and> (\<forall>r. fst (get_callout_data env callout_id) = Inr r \<longrightarrow>
             map_of r ''body'' = Some (PStr [])))
   \<and> (fst (client_entry env card_id) = Inr c \<longrightarrow>
      fields_get (entry_fields c) ''body'' = PNone \<longrightarrow>
      (\<forall>v. Render v \<notin> set (snd (get_card_data env card_id aspect_ratio)))
      \<and> (\<forall>r. fst (get_card_data env card_id aspect_ratio) = Inr r \<longrightarrow>
             map_of r ''body'' = Some (PStr [])))"
proof (intro conjI impI allI)
  fix v
  assume "fst (client_entry env callout_id) = Inr config"
    "py_id (fields_get (entry_fields config) ''component_callout'') = Inr content_id"
    "fst (client_entry env content_id) = Inr content"
    "fields_get (entry_fields content) ''body'' = PNone"
  then show "Render v \<notin> set (snd (get_callout_data env callout_id))"
    by (rule no_render_get_callout_data)
next
  fix r
  assume "fst (client_entry env callout_id) = Inr config"
    "py_id (fields_get (entry_fields config) ''component_callout'') = Inr content_id"
    "fst (client_entry env content_id) = Inr content"
    "fields_get (entry_fields content) ''body'' = PNone"
    "fst (get_callout_data env callout_id) = Inr r"
  then show "map_of r ''body'' = Some (PStr [])"
    by (auto simp: fst_get_callout_data_Inr_iff fst_render_body)
next
  fix v
  assume "fst (client_entry env card_id) = Inr c" "fields_get (entry_fields c) ''body'' = PNone"
  then show "Render v \<notin> set (snd (get_card_data env card_id aspect_ratio))"
    by (rule no_render_get_card_data)
next
  fix r
  assume "fst (client_entry env card_id) = Inr c" "fields_get (entry_fields c) ''body'' = PNone"
    "fst (get_card_data env card_id aspect_ratio) = Inr r"
  then show "map_of r ''body'' = Some (PStr [])"
    by (auto simp: fst_get_card_data_Inr_iff fst_render_body)
qed

theorem callout_card_absent_body_witness:
  "fst (client_entry example_env ''callout1'') =
     Inr \<lparr>entry_id = ''callout1'', content_type_id = ''layoutCallout'',
          entry_fields = callout1_fields\<rparr>
   \<and> py_id (fields_get callout1_fields ''component_callout'') = Inr ''calloutc1''
   \<and> fst (client_entry example_env ''calloutc1'') =
     Inr \<lparr>entry_id = ''calloutc1'', content_type_id = ''componentCallout'',
          entry_fields = calloutc1_fields\<rparr>
   \<and> fields_get calloutc1_fields ''body'' = PNone
   \<and> (\<forall>v. Render v \<notin> set (snd (get_callout_data example_env ''callout1'')))
   \<and> fst (get_callout_data example_env ''callout1'') = Inr callout1_data
   \<and> map_of callout1_data ''body'' = Some (PStr [])
   \<and> fst (client_entry example_env ''card2'') =
     Inr \<lparr>entry_id = ''card2'', content_type_id = ''componentCard'', entry_fields = card2_fields\<rparr>
   \<and> fields_get card2_fields ''body'' = PNone
   \<and> (\<forall>v. Render v \<notin> set (snd (get_card_data example_env ''card2'' (PStr ''3:2''))))
   \<and> fst (get_card_data example_env ''card2'' (PStr ''3:2'')) = Inr card2_3_2
   \<and> map_of card2_3_2 ''body'' = Some (PStr [])"
proof -
  let ?config = "\<lparr>entry_id = ''callout1'', content_type_id = ''layoutCallout'',
          entry_fields = callout1_fields\<rparr>"
  let ?content = "\<lparr>entry_id = ''calloutc1'', content_type_id = ''componentCallout'',
          entry_fields = calloutc1_fields\<rparr>"
  let ?card = "\<lparr>entry_id = ''card2'', content_type_id = ''componentCard'',
          entry_fields = card2_fields\<rparr>"
  have h1: "fst (client_entry example_env ''callout1'') = Inr ?config"
    by code_simp
  have h2: "py_id (fields_get (entry_fields ?config) ''component_callout'') = Inr ''calloutc1''"
    by code_simp
  have h3: "fst (client_entry example_env ''calloutc1'') = Inr ?content"
    by code_simp
  have h4: "fields_get (entry_fields ?content) ''body'' = PNone"
    by code_simp
  have h5: "fst (client_entry example_env ''card2'') = Inr ?card"
    by code_simp
  have h6: "fields_get (entry_fields ?card) ''body'' = PNone"
    by code_simp
  have r1: "fst (get_callout_data example_env ''callout1'') = Inr callout1_data"
    by code_simp
  have r2: "fst (get_card_data example_env ''card2'' (PStr ''3:2'')) = Inr card2_3_2"
    by code_simp
  note inst = callout_card_absent_body [of example_env "''callout1''" ?config "''calloutc1''" ?content
      "''card2''" ?card "PStr ''3:2''"]
  from inst [THEN conjunct1, rule_format, OF h1 h2 h3 h4]
  have a: "\<forall>v. Render v \<notin> set (snd (get_callout_data example_env ''callout1''))"
    and b: "\<forall>r. fst (get_callout_data example_env ''callout1'') = Inr r \<longrightarrow>
             map_of r ''body'' = Some (PStr [])"
    by blast+
  from inst [THEN conjunct2, rule_format, OF h5 h6]
  have c: "\<forall>v. Render v \<notin> set (snd (get_card_data example_env ''card2'' (PStr ''3:2'')))"
    and d: "\<forall>r. fst (get_card_data example_env ''card2'' (PStr ''3:2'')) = Inr r \<longrightarrow>
             map_of r ''body'' = Some (PStr [])"
    by blast+
  from b r1 have b': "map_of callout1_data ''body'' = Some (PStr [])" by blast
  from d r2 have d': "map_of card2_3_2 ''body'' = Some (PStr [])" by blast
  from h2 h4 h6 have h2': "py_id (fields_get callout1_fields ''component_callout'') = Inr ''calloutc1''"
    and h4': "fields_get calloutc1_fields ''body'' = PNone"
    and h6': "fields_get card2_fields ''body'' = PNone"
    by simp_all
  show ?thesis
    using h1 h2' h3 h4' a r1 b' h5 h6' c r2 d' by (intro conjI)
qed

text \<open>
  The text extraction has no such guard: it always calls the renderer on its argument,
  also on \<^verbatim>\<open>None\<close>, and its body is what the renderer returns. With a renderer that
  fails on \<^verbatim>\<open>None\<close>, as the stand-in of the example space does, the extraction raises.
\<close>

theorem text_extraction_renders_none:
  "Render PNone \<in> set (snd (get_text_data example_env PNone))
   \<and> fst (get_text_data example_env PNone) = Inl AttributeError"
  by (simp add: get_text_data_renders example_env_def example_render_def)

section \<open>The card layout\<close>

lemma cards_append_layout:
  "cards_append
     [(''component'', a), (''layout_class'', b), (''aspect_ratio'', c), (''cards'', PList xs)] x
   = Inr [(''component'', a), (''layout_class'', b), (''aspect_ratio'', c),
          (''cards'', PList (xs @ [PDict x]))]"
  by (simp add: cards_append_def fields_get_def)

lemma fst_card_step_Inr_iff:
  "fst (card_step env aspect_ratio card_ref d) = Inr d' \<longleftrightarrow>
     (\<exists>i x. py_id card_ref = Inr i \<and> fst (get_card_data env i aspect_ratio) = Inr x
        \<and> cards_append d x = Inr d')"
  by (simp add: card_step_def fst_io_bind_Inr_iff)

text \<open>
  The loop over the cards: started on a layout dictionary whose \<^verbatim>\<open>cards\<close> list is \<open>xs\<close>,
  it returns exactly when every entry of the sequence has an id and extracts as a card,
  and then it has appended those cards, in order, to \<open>xs\<close>.
\<close>

lemma fst_io_fold_card_step_Inr_iff:
  "fst (io_fold (card_step env aspect_ratio) items
      [(''component'', a), (''layout_class'', b), (''aspect_ratio'', c), (''cards'', PList xs)])
     = Inr d' \<longleftrightarrow>
   (\<exists>cs. list_all2 (\<lambda>item x. \<exists>i. py_id item = Inr i \<and>
                fst (get_card_data env i aspect_ratio) = Inr x) items cs
      \<and> d' = [(''component'', a), (''layout_class'', b), (''aspect_ratio'', c),
              (''cards'', PList (xs @ map PDict cs))])"
proof (induction items arbitrary: xs)
  case Nil
  then show ?case by auto
next
  case (Cons item items)
  let ?P = "\<lambda>item x. \<exists>i. py_id item = Inr i \<and> fst (get_card_data env i aspect_ratio) = Inr x"
  let ?d = "\<lambda>ys. [(''component'', a), (''layout_class'', b), (''aspect_ratio'', c),
              (''cards'', PList ys)]"
  have "fst (io_fold (card_step env aspect_ratio) (item # items) (?d xs)) = Inr d' \<longleftrightarrow>
        (\<exists>x. ?P item x \<and>
           fst (io_fold (card_step env aspect_ratio) items (?d (xs @ [PDict x]))) = Inr d')"
    by (auto simp: fst_io_bind_Inr_iff fst_card_step_Inr_iff cards_append_layout)
  also have "\<dots> \<longleftrightarrow>
        (\<exists>x cs. ?P item x \<and> list_all2 ?P items cs \<and> d' = ?d (xs @ PDict x # map PDict cs))"
    by (simp add: Cons.IH)
  also have "\<dots> \<longleftrightarrow> (\<exists>cs. list_all2 ?P (item # items) cs \<and> d' = ?d (xs @ map PDict cs))"
  proof
    assume "\<exists>x cs. ?P item x \<and> list_all2 ?P items cs \<and> d' = ?d (xs @ PDict x # map PDict cs)"
    then obtain x cs where "?P item x" "list_all2 ?P items cs"
      "d' = ?d (xs @ PDict x # map PDict cs)"
      by blast
    then have "list_all2 ?P (item # items) (x # cs) \<and> d' = ?d (xs @ map PDict (x # cs))"
      by simp
    then show "\<exists>cs. list_all2 ?P (item # items) cs \<and> d' = ?d (xs @ map PDict cs)"
      by (rule exI)
  next
    assume "\<exists>cs. list_all2 ?P (item # items) cs \<and> d' = ?d (xs @ map PDict cs)"
    then obtain cs' where l: "list_all2 ?P (item # items) cs'" and d: "d' = ?d (xs @ map PDict cs')"
      by blast
    from l obtain x cs where "cs' = x # cs" "?P item x" "list_all2 ?P items cs"
      by (auto simp: list_all2_Cons1)
    with d have "?P item x \<and> list_all2 ?P items cs \<and> d' = ?d (xs @ PDict x # map PDict cs)"
      by simp
    then show "\<exists>x cs. ?P item x \<and> list_all2 ?P items cs \<and> d' = ?d (xs @ PDict x # map PDict cs)"
      by blast
  qed
  finally show ?case .
qed

lemma get_layout_class_Inr: "\<exists>lc. get_layout_class (PStr s) = Inr lc"
  by (simp add: get_layout_class_def dict_get_def)

lemma fst_get_card_layout_data_five:
  assumes "fst (client_entry env layout_id) = Inr config"
    and "content_type_id config = ''layout5Cards''"
  shows "fst (get_card_layout_data env layout_id) = Inr r \<longleftrightarrow>
     (\<exists>card_layout_id large_fields card_id large_card_data items.
        py_id (fields_get (entry_fields config) ''large_card'') = Inr card_layout_id
        \<and> py_fields (fields_get (entry_fields config) ''large_card'') = Inr large_fields
        \<and> py_id (fields_get large_fields ''card'') = Inr card_id
        \<and> fst (get_large_card_data env card_layout_id card_id) = Inr large_card_data
        \<and> py_iter (fields_get (entry_fields config) ''content'') = Inr items
        \<and> fst (io_fold (card_step env (fields_get (entry_fields config) ''aspect_ratio'')) items
              [(''component'', PStr ''cardLayout''), (''layout_class'', PStr ''mzp-l-card-hero''),
               (''aspect_ratio'', fields_get (entry_fields config) ''aspect_ratio''),
               (''cards'', PList [PDict large_card_data])]) = Inr r)"
proof -
  have lc: "get_layout_class (PStr ''layout5Cards'') = Inr ''mzp-l-card-hero''"
    by (simp add: get_layout_class_def dict_get_def LAYOUT_CLASS_def)
  show ?thesis
    using assms lc
    by (simp add: get_card_layout_data_def get_entry_by_id_def fst_io_bind_Inr_iff Let_def
        cards_append_layout) blast
qed

lemma fst_get_card_layout_data_other:
  assumes "fst (client_entry env layout_id) = Inr config"
    and "content_type_id config \<noteq> ''layout5Cards''"
  shows "fst (get_card_layout_data env layout_id) = Inr r \<longleftrightarrow>
     (\<exists>lc items.
        get_layout_class (PStr (content_type_id config)) = Inr lc
        \<and> py_iter (fields_get (entry_fields config) ''content'') = Inr items
        \<and> fst (io_fold (card_step env (fields_get (entry_fields config) ''aspect_ratio'')) items
              [(''component'', PStr ''cardLayout''), (''layout_class'', PStr lc),
               (''aspect_ratio'', fields_get (entry_fields config) ''aspect_ratio''),
               (''cards'', PList [])]) = Inr r)"
  using assms
  by (simp add: get_card_layout_data_def get_entry_by_id_def fst_io_bind_Inr_iff Let_def)

text \<open>
  C6. For a layout entry whose content type is \<^verbatim>\<open>layout5Cards\<close>, \<^verbatim>\<open>get_card_layout_data\<close>
  returns exactly when the large card (reached through the \<^verbatim>\<open>large_card\<close> field and its
  \<^verbatim>\<open>card\<close> field) and every entry of the \<^verbatim>\<open>content\<close> sequence extract, and then the \<^verbatim>\<open>cards\<close>
  list is the large card followed by the card of each entry of \<^verbatim>\<open>content\<close>, in the order
  of the sequence, each extracted at the aspect ratio of the layout.
\<close>

theorem five_card_layout_cards:
  assumes "fst (client_entry env layout_id) = Inr config"
    and "content_type_id config = ''layout5Cards''"
  shows "fst (get_card_layout_data env layout_id) = Inr r \<longleftrightarrow>
     (\<exists>card_layout_id large_fields card_id large_card_data items cs.
        py_id (fields_get (entry_fields config) ''large_card'') = Inr card_layout_id
        \<and> py_fields (fields_get (entry_fields config) ''large_card'') = Inr large_fields
        \<and> py_id (fields_get large_fields ''card'') = Inr card_id
        \<and> fst (get_large_card_data env card_layout_id card_id) = Inr large_card_data
        \<and> py_iter (fields_get (entry_fields config) ''content'') = Inr items
        \<and> list_all2
            (\<lambda>item x. \<exists>i. py_id item = Inr i \<and>
               fst (get_card_data env i (fields_get (entry_fields config) ''aspect_ratio'')) = Inr x)
            items cs
        \<and> r = [(''component'', PStr ''cardLayout''),
               (''layout_class'', PStr ''mzp-l-card-hero''),
               (''aspect_ratio'', fields_get (entry_fields config) ''aspect_ratio''),
               (''cards'', PList (PDict large_card_data # map PDict cs))])"
  unfolding fst_get_card_layout_data_five [OF assms] fst_io_fold_card_step_Inr_iff
  by simp

theorem five_card_layout_cards_witness:
  "fst (client_entry example_env ''layout5'') =
     Inr \<lparr>entry_id = ''layout5'', content_type_id = ''layout5Cards'',
          entry_fields = layout5_fields\<rparr>
   \<and> fst (get_card_layout_data example_env ''layout5'') = Inr layout5_data
   \<and> (\<exists>card_layout_id large_fields card_id large_card_data items cs.
        py_id (fields_get layout5_fields ''large_card'') = Inr card_layout_id
        \<and> py_fields (fields_get layout5_fields ''large_card'') = Inr large_fields
        \<and> py_id (fields_get large_fields ''card'') = Inr card_id
        \<and> fst (get_large_card_data example_env card_layout_id card_id) = Inr large_card_data
        \<and> py_iter (fields_get layout5_fields ''content'') = Inr items
        \<and> list_all2
            (\<lambda>item x. \<exists>i. py_id item = Inr i \<and>
               fst (get_card_data example_env i (fields_get layout5_fields ''aspect_ratio'')) = Inr x)
            items cs
        \<and> layout5_data = [(''component'', PStr ''cardLayout''),
               (''layout_class'', PStr ''mzp-l-card-hero''),
               (''aspect_ratio'', fields_get layout5_fields ''aspect_ratio''),
               (''cards'', PList (PDict large_card_data # map PDict cs))])"
proof -
  let ?config = "\<lparr>entry_id = ''layout5'', content_type_id = ''layout5Cards'',
          entry_fields = layout5_fields\<rparr>"
  have h1: "fst (client_entry example_env ''layout5'') = Inr ?config"
    by code_simp
  have h2: "content_type_id ?config = ''layout5Cards''"
    by simp
  have r: "fst (get_card_layout_data example_env ''layout5'') = Inr layout5_data"
    by code_simp
  from five_card_layout_cards [OF h1 h2, of layout5_data] r
  show ?thesis
    using h1 by simp
qed

section \<open>The component discriminator\<close>

lemma component_hero:
  "fst (get_hero_data env hero_id) = Inr r \<Longrightarrow> map_of r ''component'' = Some (PStr ''hero'')"
  by (auto simp: get_hero_data_def get_entry_by_id_def fst_io_bind_Inr_iff Let_def)

lemma component_section_heading:
  "fst (get_section_heading_data env heading_id) = Inr r \<Longrightarrow>
   map_of r ''component'' = Some (PStr ''sectionHeading'')"
  by (auto simp: get_section_heading_data_def get_entry_by_id_def fst_io_bind_Inr_iff Let_def)

lemma component_callout:
  "fst (get_callout_data env callout_id) = Inr r \<Longrightarrow>
   map_of r ''component'' = Some (PStr ''callout'')"
  by (auto simp: fst_get_callout_data_Inr_iff)

lemma component_card:
  "fst (get_card_data env card_id aspect_ratio) = Inr r \<Longrightarrow>
   map_of r ''component'' = Some (PStr ''card'')"
  by (auto simp: fst_get_card_data_Inr_iff)

lemma component_large_card:
  assumes "fst (get_large_card_data env card_layout_id card_id) = Inr r"
  shows "map_of r ''component'' = Some (PStr ''large_card'')"
proof -
  from assms have "large_card_spec env card_layout_id card_id = Inr r"
    by (simp add: large_card_spec_iff)
  then obtain u card_data where
    "fst (get_card_data env card_id (PStr ''16:9'')) = Inr card_data"
    "r = relabel_large_card u card_data"
    unfolding large_card_spec_Inr_iff by blast
  then show ?thesis
    using relabel_large_card_values [of env card_id "PStr ''16:9''" card_data u] by simp
qed

lemma component_card_layout:
  assumes "fst (get_card_layout_data env layout_id) = Inr r"
  shows "map_of r ''component'' = Some (PStr ''cardLayout'')"
proof -
  from assms obtain config where c: "fst (client_entry env layout_id) = Inr config"
    by (auto simp: get_card_layout_data_def get_entry_by_id_def fst_io_bind_Inr_iff)
  show ?thesis
  proof (cases "content_type_id config = ''layout5Cards''")
    case True
    from assms show ?thesis
      unfolding fst_get_card_layout_data_five [OF c True] fst_io_fold_card_step_Inr_iff
      by auto
  next
    case False
    from assms show ?thesis
      unfolding fst_get_card_layout_data_other [OF c False] fst_io_fold_card_step_Inr_iff
      by auto
  qed
qed

lemma component_text:
  "fst (get_text_data env v) = Inr r \<Longrightarrow> map_of r ''component'' = Some (PStr ''text'')"
  by (auto simp: get_text_data_renders split: sum.splits)

lemma component_cta:
  "truthy cta \<Longrightarrow> fst (get_cta_data env cta) = Inr r \<Longrightarrow>
   \<exists>i e. py_id cta = Inr i \<and> fst (client_entry env i) = Inr e
     \<and> map_of r ''component'' = Some (PStr (content_type_id e))"
  by (cases "py_id cta")
     (auto simp: get_cta_data_def get_entry_by_id_def fst_io_bind Let_def split: sum.splits)

text \<open>
  C4, as amended. Every dictionary returned by the hero, section heading, callout, card,
  large card, card layout and text extractions has the key \<^verbatim>\<open>component\<close>, with the tag of
  its kind, and so has the dictionary returned by the CTA extraction for a truthy
  reference, with the content type of the CTA entry as its tag.
\<close>

theorem component_discriminator:
  "(fst (get_hero_data env hero_id) = Inr r1 \<longrightarrow> map_of r1 ''component'' = Some (PStr ''hero''))
   \<and> (fst (get_section_heading_data env heading_id) = Inr r2 \<longrightarrow>
        map_of r2 ''component'' = Some (PStr ''sectionHeading''))
   \<and> (fst (get_callout_data env callout_id) = Inr r3 \<longrightarrow>
        map_of r3 ''component'' = Some (PStr ''callout''))
   \<and> (fst (get_card_data env card_id aspect_ratio) = Inr r4 \<longrightarrow>
        map_of r4 ''component'' = Some (PStr ''card''))
   \<and> (fst (get_large_card_data env card_layout_id card_id') = Inr r5 \<longrightarrow>
        map_of r5 ''component'' = Some (PStr ''large_card''))
   \<and> (fst (get_card_layout_data env layout_id) = Inr r6 \<longrightarrow>
        map_of r6 ''component'' = Some (PStr ''cardLayout''))
   \<and> (fst (get_text_data env v) = Inr r7 \<longrightarrow> map_of r7 ''component'' = Some (PStr ''text''))
   \<and> (truthy cta \<longrightarrow> fst (get_cta_data env cta) = Inr r8 \<longrightarrow>
        (\<exists>i e. py_id cta = Inr i \<and> fst (client_entry env i) = Inr e
           \<and> map_of r8 ''component'' = Some (PStr (content_type_id e))))"
  apply (intro conjI impI)
         apply (erule component_hero)
        apply (erule component_section_heading)
       apply (erule component_callout)
      apply (erule component_card)
     apply (erule component_large_card)
    apply (erule component_card_layout)
   apply (erule component_text)
  apply (erule component_cta, assumption)
  done

theorem component_discriminator_witness:
  "fst (get_hero_data example_env ''hero1'') = Inr hero1_data
   \<and> map_of hero1_data ''component'' = Some (PStr ''hero'')
   \<and> fst (get_section_heading_data example_env ''heading1'') = Inr heading1_data
   \<and> map_of heading1_data ''component'' = Some (PStr ''sectionHeading'')
   \<and> fst (get_callout_data example_env ''callout1'') = Inr callout1_data
   \<and> map_of callout1_data ''component'' = Some (PStr ''callout'')
   \<and> fst (get_card_data example_env ''card2'' (PStr ''3:2'')) = Inr card2_3_2
   \<and> map_of card2_3_2 ''component'' = Some (PStr ''card'')
   \<and> fst (get_large_card_data example_env ''large1'' ''card1'') = Inr large1_card1
   \<and> map_of large1_card1 ''component'' = Some (PStr ''large_card'')
   \<and> fst (get_card_layout_data example_env ''layout3'') = Inr layout3_data
   \<and> map_of layout3_data ''component'' = Some (PStr ''cardLayout'')
   \<and> fst (get_text_data example_env text1) = Inr text1_data
   \<and> map_of text1_data ''component'' = Some (PStr ''text'')
   \<and> truthy (PEntry ''cta1'' ''componentCtaButton'' cta1_fields)
   \<and> fst (get_cta_data example_env (PEntry ''cta1'' ''componentCtaButton'' cta1_fields))
       = Inr cta1_data
   \<and> (\<exists>i e. py_id (PEntry ''cta1'' ''componentCtaButton'' cta1_fields) = Inr i
         \<and> fst (client_entry example_env i) = Inr e
         \<and> map_of cta1_data ''component'' = Some (PStr (content_type_id e)))"
proof -
  have h1: "fst (get_hero_data example_env ''hero1'') = Inr hero1_data"
    by code_simp
  have h2: "fst (get_section_heading_data example_env ''heading1'') = Inr heading1_data"
    by code_simp
  have h3: "fst (get_callout_data example_env ''callout1'') = Inr callout1_data"
    by code_simp
  have h4: "fst (get_card_data example_env ''card2'' (PStr ''3:2'')) = Inr card2_3_2"
    by code_simp
  have h5: "fst (get_large_card_data example_env ''large1'' ''card1'') = Inr large1_card1"
    by code_simp
  have h6: "fst (get_card_layout_data example_env ''layout3'') = Inr layout3_data"
    by code_simp
  have h7: "fst (get_text_data example_env text1) = Inr text1_data"
    by code_simp
  have h8: "truthy (PEntry ''cta1'' ''componentCtaButton'' cta1_fields)"
    by simp
  have h9: "fst (get_cta_data example_env (PEntry ''cta1'' ''componentCtaButton'' cta1_fields))
       = Inr cta1_data"
    by code_simp
  show ?thesis
    using h1 h2 h3 h4 h5 h6 h7 h8 h9
      component_discriminator [of example_env "''hero1''" hero1_data "''heading1''" heading1_data
        "''callout1''" callout1_data "''card2''" "PStr ''3:2''" card2_3_2
        "''large1''" "''card1''" large1_card1 "''layout3''" layout3_data text1 text1_data
        "PEntry ''cta1'' ''componentCtaButton'' cta1_fields" cta1_data]
    by simp
qed

text \<open>
  For a falsy reference the CTA extraction returns \<^verbatim>\<open>{'include_cta': False}\<close>, which has
  no \<^verbatim>\<open>component\<close> key.
\<close>

theorem cta_absent_has_no_component:
  "fst (get_cta_data example_env PNone) = Inr [(''include_cta'', PBool False)]
   \<and> map_of [(''include_cta'', PBool False)] ''component'' = None"
  by (simp add: get_cta_data_def)

section \<open>Page data\<close>

lemma fst_io_map_Inr_iff:
  "fst (io_map f xs) = Inr ys \<longleftrightarrow> list_all2 (\<lambda>x y. fst (f x) = Inr y) xs ys"
proof (induction xs arbitrary: ys)
  case Nil
  then show ?case by auto
next
  case (Cons x xs)
  have "fst (io_map f (x # xs)) = Inr ys \<longleftrightarrow>
        (\<exists>z zs. fst (f x) = Inr z \<and> fst (io_map f xs) = Inr zs \<and> ys = z # zs)"
    by (auto simp: fst_io_bind_Inr_iff)
  also have "\<dots> \<longleftrightarrow> (\<exists>z zs. fst (f x) = Inr z \<and> list_all2 (\<lambda>x y. fst (f x) = Inr y) xs zs
                         \<and> ys = z # zs)"
    by (simp add: Cons.IH)
  also have "\<dots> \<longleftrightarrow> list_all2 (\<lambda>x y. fst (f x) = Inr y) (x # xs) ys"
    by (auto simp: list_all2_Cons1)
  finally show ?case .
qed

lemma get_info_data_keys:
  "get_info_data flds = Inr info \<Longrightarrow>
   map fst info =
     [''title'', ''blurb'', ''slug'']
     @ (if map_of flds ''preview_image'' = None then [] else [''image''])"
  by (auto simp: get_info_data_def Let_def split: sum.splits if_splits)

lemma fst_get_page_data_Inr_iff:
  "fst (get_page_data env page_id) = Inr r \<longleftrightarrow>
     (\<exists>page info.
        fst (client_entry env page_id) = Inr page
        \<and> get_info_data (entry_fields page) = Inr info
        \<and> r = [(''page_type'', PStr (content_type_id page)),
               (''info'', PDict info),
               (''fields'', PDict (entry_fields page))])"
  by (auto simp: get_page_data_def fst_io_bind_Inr_iff Let_def)

text \<open>
  C2, as amended. With a client, \<^verbatim>\<open>get_all_page_data\<close> lists the entries of content type
  \<^verbatim>\<open>pageVersatile\<close> and returns, for each in order, the whole page data of \<^verbatim>\<open>get_page_data\<close>
  for its id: the page type, the summary \<^verbatim>\<open>info\<close> (title, blurb, slug and, when the page
  has a preview image, its URL) and, under \<^verbatim>\<open>fields\<close>, the complete field dictionary of
  the page.
\<close>

theorem get_all_page_data_full_page_data:
  assumes "client env = Some es"
  shows "fst (get_all_page_data env) = Inr rs \<longleftrightarrow>
     list_all2
       (\<lambda>p r. \<exists>page info.
          fst (client_entry env (entry_id p)) = Inr page
          \<and> get_info_data (entry_fields page) = Inr info
          \<and> map fst info =
              [''title'', ''blurb'', ''slug'']
              @ (if map_of (entry_fields page) ''preview_image'' = None then [] else [''image''])
          \<and> r = [(''page_type'', PStr (content_type_id page)),
                 (''info'', PDict info),
                 (''fields'', PDict (entry_fields page))])
       (filter (\<lambda>e. content_type_id e = ''pageVersatile'') es) rs"
proof -
  have "fst (get_all_page_data env) = Inr rs \<longleftrightarrow>
        list_all2 (\<lambda>p r. fst (get_page_data env (entry_id p)) = Inr r)
          (filter (\<lambda>e. content_type_id e = ''pageVersatile'') es) rs"
    using assms
    by (simp add: get_all_page_data_def client_entries_def fst_io_map_Inr_iff)
  also have "(\<lambda>p r. fst (get_page_data env (entry_id p)) = Inr r) =
     (\<lambda>p r. \<exists>page info.
          fst (client_entry env (entry_id p)) = Inr page
          \<and> get_info_data (entry_fields page) = Inr info
          \<and> map fst info =
              [''title'', ''blurb'', ''slug'']
              @ (if map_of (entry_fields page) ''preview_image'' = None then [] else [''image''])
          \<and> r = [(''page_type'', PStr (content_type_id page)),
                 (''info'', PDict info),
                 (''fields'', PDict (entry_fields page))])"
  proof (intro ext iffI)
    fix p r
    assume "fst (get_page_data env (entry_id p)) = Inr r"
    then obtain page info where
      a: "fst (client_entry env (entry_id p)) = Inr page" and
      b: "get_info_data (entry_fields page) = Inr info" and
      c: "r = [(''page_type'', PStr (content_type_id page)),
               (''info'', PDict info),
               (''fields'', PDict (entry_fields page))]"
      unfolding fst_get_page_data_Inr_iff by blast
    note d = get_info_data_keys [OF b]
    show "\<exists>page info.
          fst (client_entry env (entry_id p)) = Inr page
          \<and> get_info_data (entry_fields page) = Inr info
          \<and> map fst info =
              [''title'', ''blurb'', ''slug'']
              @ (if map_of (entry_fields page) ''preview_image'' = None then [] else [''image''])
          \<and> r = [(''page_type'', PStr (content_type_id page)),
                 (''info'', PDict info),
                 (''fields'', PDict (entry_fields page))]"
      apply (rule exI [of _ page])
      apply (rule exI [of _ info])
      apply (intro conjI)
         apply (rule a)
        apply (rule b)
       apply (rule d)
      apply (rule c)
      done
  next
    fix p r
    assume "\<exists>page info.
          fst (client_entry env (entry_id p)) = Inr page
          \<and> get_info_data (entry_fields page) = Inr info
          \<and> map fst info =
              [''title'', ''blurb'', ''slug'']
              @ (if map_of (entry_fields page) ''preview_image'' = None then [] else [''image''])
          \<and> r = [(''page_type'', PStr (content_type_id page)),
                 (''info'', PDict info),
                 (''fields'', PDict (entry_fields page))]"
    then show "fst (get_page_data env (entry_id p)) = Inr r"
      unfolding fst_get_page_data_Inr_iff by blast
  qed
  finally show ?thesis .
qed

theorem get_all_page_data_full_page_data_witness:
  "client example_env = Some example_entries
   \<and> fst (get_all_page_data example_env) = Inr [about_page_data]
   \<and> list_all2
       (\<lambda>p r. \<exists>page info.
          fst (client_entry example_env (entry_id p)) = Inr page
          \<and> get_info_data (entry_fields page) = Inr info
          \<and> map fst info =
              [''title'', ''blurb'', ''slug'']
              @ (if map_of (entry_fields page) ''preview_image'' = None then [] else [''image''])
          \<and> r = [(''page_type'', PStr (content_type_id page)),
                 (''info'', PDict info),
                 (''fields'', PDict (entry_fields page))])
       (filter (\<lambda>e. content_type_id e = ''pageVersatile'') example_entries) [about_page_data]"
proof -
  have h: "client example_env = Some example_entries"
    by (simp add: example_env_def)
  have r: "fst (get_all_page_data example_env) = Inr [about_page_data]"
    by code_simp
  from get_all_page_data_full_page_data [OF h, of "[about_page_data]"] r h
  show ?thesis by simp
qed

text \<open>
  On the example space the one listed page is returned with its page type and all its
  fields; the element is not the summary \<^verbatim>\<open>info\<close>, which is only its second component.
\<close>

theorem get_all_page_data_not_only_info:
  "fst (get_all_page_data example_env) = Inr [about_page_data]
   \<and> get_info_data about_fields = Inr about_info
   \<and> about_page_data \<noteq> about_info
   \<and> map fst about_page_data = [''page_type'', ''info'', ''fields'']
   \<and> map_of about_page_data ''fields'' = Some (PDict about_fields)"
proof -
  have "fst (get_all_page_data example_env) = Inr [about_page_data]"
    by code_simp
  moreover have "get_info_data about_fields = Inr about_info"
    by code_simp
  moreover have "about_page_data \<noteq> about_info"
    by (simp add: about_page_data_def about_info_def)
  moreover have "map fst about_page_data = [''page_type'', ''info'', ''fields'']"
    by (simp add: about_page_data_def)
  moreover have "map_of about_page_data ''fields'' = Some (PDict about_fields)"
    by (simp add: about_page_data_def)
  ultimately show ?thesis by simp
qed

section \<open>The page content walker\<close>

lemma str_getitem_str: "str_getitem s (PStr k) = Inl TypeError"
  by (simp add: str_getitem_def)

lemma get_content_after_page_data:
  "fst (get_page_data env page_id) = Inr page_data \<Longrightarrow>
   fst (get_content env page_id) = Inl TypeError"
  by (simp add: get_content_def fst_io_bind str_getitem_str)

lemma get_content_never_returns: "\<exists>e. fst (get_content env page_id) = Inl e"
  by (cases "fst (get_page_data env page_id)")
     (simp_all add: get_content_def fst_io_bind str_getitem_str)

text \<open>
  The loop of the \<^verbatim>\<open>pageHome\<close> branch does what the end-to-end scenario asks for: on a
  hero followed by a three-card layout it returns the hero dictionary and then the
  layout dictionary, whose layout class is \<^verbatim>\<open>mzp-l-card-third\<close>.
\<close>

lemma home_loop_hero_then_layout3:
  "fst (io_fold (home_step env)
         [PEntry h ''componentHero'' fh, PEntry l ''layout3Cards'' fl] []) = Inr entries \<longleftrightarrow>
   (\<exists>hero_data layout_data.
      fst (get_hero_data env h) = Inr hero_data
      \<and> fst (get_card_layout_data env l) = Inr layout_data
      \<and> entries = [PDict hero_data, PDict layout_data])"
  by (auto simp: home_step_def fst_io_bind_Inr_iff)

lemma layout3_class:
  assumes "fst (client_entry env layout_id) = Inr config"
    and "content_type_id config = ''layout3Cards''"
    and "fst (get_card_layout_data env layout_id) = Inr r"
  shows "map_of r ''layout_class'' = Some (PStr ''mzp-l-card-third'')"
proof -
  have ne: "content_type_id config \<noteq> ''layout5Cards''"
    using assms(2) by simp
  have lc: "get_layout_class (PStr ''layout3Cards'') = Inr ''mzp-l-card-third''"
    by (simp add: get_layout_class_def dict_get_def LAYOUT_CLASS_def)
  from assms(3) show ?thesis
    unfolding fst_get_card_layout_data_other [OF assms(1) ne] fst_io_fold_card_step_Inr_iff
    using lc assms(2) by auto
qed

lemma home_loop_example:
  "fst (io_fold (home_step example_env)
         [PEntry ''hero1'' ''componentHero'' hero1_fields,
          PEntry ''layout3'' ''layout3Cards'' layout3_fields] [])
   = Inr [PDict hero1_data, PDict layout3_data]"
  by code_simp

text \<open>
  C1. \<^verbatim>\<open>get_content\<close> never returns a result: once the page data is loaded it evaluates
  \<^verbatim>\<open>page_id['page_type']\<close>, a string subscript of the page id, which raises
  \<^verbatim>\<open>TypeError\<close>. On the example space, whose \<^verbatim>\<open>home\<close> page is a \<^verbatim>\<open>pageHome\<close> with one
  \<^verbatim>\<open>componentHero\<close> followed by one \<^verbatim>\<open>layout3Cards\<close>, the call fetches the page and raises.
\<close>

theorem get_content_raises_type_error:
  "(\<forall>env page_id. \<exists>e. fst (get_content env page_id) = Inl e)
   \<and> find (\<lambda>e. entry_id e = ''home'') example_entries =
       Some \<lparr>entry_id = ''home'', content_type_id = ''pageHome'', entry_fields = home_fields\<rparr>
   \<and> fields_get home_fields ''content'' =
       PList [PEntry ''hero1'' ''componentHero'' hero1_fields,
              PEntry ''layout3'' ''layout3Cards'' layout3_fields]
   \<and> get_content example_env ''home'' = (Inl TypeError, [Fetch ''home''])"
proof -
  have "\<forall>env page_id. \<exists>e. fst (get_content env page_id) = Inl e"
    using get_content_never_returns by blast
  moreover have "find (\<lambda>e. entry_id e = ''home'') example_entries =
       Some \<lparr>entry_id = ''home'', content_type_id = ''pageHome'', entry_fields = home_fields\<rparr>"
    by code_simp
  moreover have "fields_get home_fields ''content'' =
       PList [PEntry ''hero1'' ''componentHero'' hero1_fields,
              PEntry ''layout3'' ''layout3Cards'' layout3_fields]"
    by (simp add: fields_get_def home_fields_def)
  moreover have "get_content example_env ''home'' = (Inl TypeError, [Fetch ''home''])"
    by code_simp
  ultimately show ?thesis by blast
qed

end
